theory Spec2Isabelle
  imports Main "HOL-Library.Sublist"
begin

section \<open>Data model of the data-access client (supaclient.py)\<close>

text \<open>
  A value held in an attribute of an entity or in a column of a remote row.
  Python's \<open>None\<close> (SQL null) is \<open>VNull\<close>.
\<close>

datatype val = VNull | VStr string | VInt int

text \<open>A Python dict from column names to values, in insertion order.\<close>

type_synonym row = "(string \<times> val) list"

type_synonym bytes = "nat list"

text \<open>
  The classes of \<open>grannymail.db.classes\<close> (the keys of \<open>obj_to_table\<close>). An
  instance carries its class, its \<open>_unique_fields\<close> list and its declared
  attributes with their current values, in declaration order.
\<close>

datatype entity_kind = User | Message | File | Address | Draft | Order | Attachment | Changelog

record entity =
  etype :: entity_kind
  unique_fields :: "string list"
  attrs :: row

text \<open>
  The exceptions of the module. \<open>ValueError\<close> carries which of the module's
  \<open>raise ValueError(...)\<close> sites produced it (the message of the source).
\<close>

datatype value_reason =
    MoreThanOneFound string val
  | NoUniqueFields
  | NoDeletionValue string
  | AddressNoUserId
  | AddressNoAddressId
  | OrderMissing string
  | MimeNotSupported string

datatype error =
    NoEntryFoundError string string val
  | DuplicateEntryError
  | ValueError value_reason
  | AttributeError string
  | TypeError
  | IndexError
  | AssertionError

text \<open>The remote calls the client issues, in the order it issues them.\<close>

datatype call =
    Select string string val
  | Insert string row
  | Update string row string val
  | Delete string string val
  | Upload string string bytes string

text \<open>
  The hosted backend behind \<open>self.client\<close>: the rows of every table, the name
  of every table's identifier column, the next identifier the server hands out,
  the blob bucket, and the log of calls received.
\<close>

record remote =
  tables :: "string \<Rightarrow> row list"
  pkey :: "string \<Rightarrow> string"
  next_id :: nat
  bucket :: string
  blobs :: "string \<Rightarrow> (bytes \<times> string) option"
  calls :: "call list"

type_synonym 'a res = "(error + 'a) \<times> remote"

subsection \<open>The remote store\<close>

definition matches :: "string \<Rightarrow> val \<Rightarrow> row \<Rightarrow> bool" where
  "matches k v r = (map_of r k = Some v)"

text \<open>
  Modelled from the spec: the remote relational store (the supabase client is
  an external library, not in src/). \<open>table(t).select("*").eq(k, v).execute().data\<close>
  returns the rows of \<open>t\<close> whose column \<open>k\<close> equals \<open>v\<close>.
\<close>

definition table_select_eq :: "remote \<Rightarrow> string \<Rightarrow> string \<Rightarrow> val \<Rightarrow> row list \<times> remote" where
  "table_select_eq s t k v =
     (filter (matches k v) (tables s t), s\<lparr>calls := calls s @ [Select t k v]\<rparr>)"

text \<open>
  Modelled from the spec: insert-returning-row. The server stores the row, gives
  it a generated identifier when the caller sent none, and returns the stored
  row.
\<close>

definition materialise :: "remote \<Rightarrow> string \<Rightarrow> row \<Rightarrow> row" where
  "materialise s t r =
     (if pkey s t \<in> set (map fst r) then r else r @ [(pkey s t, VInt (int (next_id s)))])"

definition table_insert :: "remote \<Rightarrow> string \<Rightarrow> row \<Rightarrow> row list \<times> remote" where
  "table_insert s t r =
     ([materialise s t r],
      s\<lparr>tables := (tables s)(t := tables s t @ [materialise s t r]),
        next_id := Suc (next_id s),
        calls := calls s @ [Insert t r]\<rparr>)"

text \<open>Python's \<open>d.update(u)\<close> on a row: later entries of \<open>u\<close> win.\<close>

fun set_col :: "string \<Rightarrow> val \<Rightarrow> row \<Rightarrow> row" where
  "set_col k v [] = [(k, v)]"
| "set_col k v ((k', v') # r) = (if k = k' then (k, v) # r else (k', v') # set_col k v r)"

fun merge_row :: "row \<Rightarrow> row \<Rightarrow> row" where
  "merge_row r [] = r"
| "merge_row r ((k, v) # u) = merge_row (set_col k v r) u"

text \<open>
  Modelled from the spec: update-with-equality-filter. Every row whose column
  \<open>k\<close> equals \<open>v\<close> takes the values of \<open>u\<close>; the updated rows are returned.
\<close>

definition table_update_eq :: "remote \<Rightarrow> string \<Rightarrow> row \<Rightarrow> string \<Rightarrow> val \<Rightarrow> row list \<times> remote" where
  "table_update_eq s t u k v =
     (map (\<lambda>r. merge_row r u) (filter (matches k v) (tables s t)),
      s\<lparr>tables := (tables s)(t := map (\<lambda>r. if matches k v r then merge_row r u else r) (tables s t)),
        calls := calls s @ [Update t u k v]\<rparr>)"

text \<open>
  Modelled from the spec: delete-with-equality-filter-returning-affected-rows.
\<close>

definition table_delete_eq :: "remote \<Rightarrow> string \<Rightarrow> string \<Rightarrow> val \<Rightarrow> row list \<times> remote" where
  "table_delete_eq s t k v =
     (filter (matches k v) (tables s t),
      s\<lparr>tables := (tables s)(t := filter (\<lambda>r. \<not> matches k v r) (tables s t)),
        calls := calls s @ [Delete t k v]\<rparr>)"

text \<open>
  Modelled from the spec: the remote blob store, path-addressed upload of bytes
  with a content type into the client's bucket; a second upload to the same
  path replaces the first.
\<close>

definition storage_upload :: "remote \<Rightarrow> bytes \<Rightarrow> string \<Rightarrow> string \<Rightarrow> remote" where
  "storage_upload s filebytes path mime_type =
     s\<lparr>blobs := (blobs s)(path \<mapsto> (filebytes, mime_type)),
       calls := calls s @ [Upload (bucket s) path filebytes mime_type]\<rparr>"

subsection \<open>The entity classes\<close>

text \<open>\<open>self.obj_to_table\<close>.\<close>

fun obj_to_table :: "entity_kind \<Rightarrow> string" where
  "obj_to_table User = ''users''"
| "obj_to_table Message = ''messages''"
| "obj_to_table File = ''files''"
| "obj_to_table Address = ''addresses''"
| "obj_to_table Draft = ''drafts''"
| "obj_to_table Order = ''orders''"
| "obj_to_table Attachment = ''attachments''"
| "obj_to_table Changelog = ''changelog''"

text \<open>\<open>getattr(obj, field)\<close>: an attribute the class does not declare raises.\<close>

definition getattr :: "entity \<Rightarrow> string \<Rightarrow> error + val" where
  "getattr obj f = (case map_of (attrs obj) f of None \<Rightarrow> Inl (AttributeError f) | Some v \<Rightarrow> Inr v)"

text \<open>
  Modelled from the spec: \<open>to_dict\<close> of \<open>grannymail.db.classes\<close> (not in src/),
  the dict of the populated attributes; \<open>_check_duplicates\<close> tests
  \<open>key in data_dict.keys()\<close> to find the unique fields that are populated.
\<close>

definition to_dict :: "entity \<Rightarrow> row" where
  "to_dict obj = filter (\<lambda>(k, v). v \<noteq> VNull) (attrs obj)"

text \<open>
  Modelled from the spec: \<open>find_different_fields\<close> of \<open>grannymail.db.classes\<close>
  (not in src/), the names of the fields whose value in the update record
  differs from the stored record's, in declaration order.
\<close>

definition find_different_fields :: "entity \<Rightarrow> entity \<Rightarrow> string list" where
  "find_different_fields self other =
     map fst (filter (\<lambda>(k, v). case map_of (attrs other) k of None \<Rightarrow> False | Some w \<Rightarrow> w \<noteq> v)
                     (attrs self))"

text \<open>
  Modelled from the spec: record construction \<open>Entity(**remote_row_dict)\<close> of a
  dataclass of \<open>grannymail.db.classes\<close> (not in src/) whose attributes all
  default to \<open>None\<close>: a key that is no declared attribute raises \<open>TypeError\<close>.
  The first argument stands for the class (its kind, unique fields and declared
  attributes).
\<close>

definition construct :: "entity \<Rightarrow> row \<Rightarrow> error + entity" where
  "construct cls r =
     (if list_ex (\<lambda>k. k \<notin> set (map fst (attrs cls))) (map fst r) then Inl TypeError
      else Inr (cls\<lparr>attrs := map (\<lambda>(k, d). (k, case map_of r k of None \<Rightarrow> VNull | Some v \<Rightarrow> v))
                                 (attrs cls)\<rparr>))"

subsection \<open>Generic helpers of the client\<close>

text \<open>
  The loop of \<open>_check_duplicates\<close>: one select per unique field that is a key of
  \<open>data_dict\<close>; the loop never stops early.
\<close>

fun dup_loop :: "string \<Rightarrow> row \<Rightarrow> string list \<Rightarrow> string list \<Rightarrow> remote \<Rightarrow> string list \<times> remote" where
  "dup_loop table data_dict [] duplicated_values s = (duplicated_values, s)"
| "dup_loop table data_dict (key # keys) duplicated_values s =
     (case map_of data_dict key of
        None \<Rightarrow> dup_loop table data_dict keys duplicated_values s
      | Some v \<Rightarrow>
          (case table_select_eq s table key v of
             (response, s') \<Rightarrow>
               dup_loop table data_dict keys
                 (if response \<noteq> [] then duplicated_values @ [key] else duplicated_values) s'))"

text \<open>
  \<open>_check_duplicates\<close>. The function has no return statement: when it does not
  raise, its value is \<open>None\<close>.
\<close>

definition check_duplicates :: "remote \<Rightarrow> string \<Rightarrow> entity \<Rightarrow> (string list option) res" where
  "check_duplicates s table data =
     (case dup_loop table (to_dict data) (unique_fields data) [] s of
        (duplicated_values, s') \<Rightarrow>
          if duplicated_values \<noteq> [] then (Inl DuplicateEntryError, s') else (Inr None, s'))"

text \<open>Truth value of what the callers bind to \<open>duplicates\<close>.\<close>

fun truthy :: "string list option \<Rightarrow> bool" where
  "truthy None = False"
| "truthy (Some l) = (l \<noteq> [])"

text \<open>
  \<open>_validate_exactly_one_supabase_item\<close>; the response is a list by its type.
\<close>

definition validate_exactly_one_supabase_item :: "row list \<Rightarrow> string \<Rightarrow> string \<Rightarrow> val \<Rightarrow> error + unit" where
  "validate_exactly_one_supabase_item response table field_name field_value =
     (if length response \<noteq> 1 then
        (if length response = 0 then Inl (NoEntryFoundError table field_name field_value)
         else Inl (ValueError (MoreThanOneFound field_name field_value)))
      else Inr ())"

text \<open>
  The comprehension \<open>[field for field in obj._unique_fields if getattr(obj, field) is not None]\<close>.
\<close>

fun populated_fields :: "entity \<Rightarrow> string list \<Rightarrow> error + string list" where
  "populated_fields obj [] = Inr []"
| "populated_fields obj (f # fs) =
     (case getattr obj f of
        Inl e \<Rightarrow> Inl e
      | Inr v \<Rightarrow>
          (case populated_fields obj fs of
             Inl e \<Rightarrow> Inl e
           | Inr rest \<Rightarrow> Inr (if v \<noteq> VNull then f # rest else rest)))"

text \<open>
  \<open>_get_obj_info\<close>. Its \<open>isinstance\<close> guard holds for every entity, so the
  model starts at the comprehension.
\<close>

definition get_obj_info :: "remote \<Rightarrow> string \<Rightarrow> entity \<Rightarrow> row res" where
  "get_obj_info s table obj =
     (case populated_fields obj (unique_fields obj) of
        Inl e \<Rightarrow> (Inl e, s)
      | Inr [] \<Rightarrow> (Inl (ValueError NoUniqueFields), s)
      | Inr (unique_field # _) \<Rightarrow>
          (case getattr obj unique_field of
             Inl e \<Rightarrow> (Inl e, s)
           | Inr v \<Rightarrow>
               (case table_select_eq s table unique_field v of
                  (response, s') \<Rightarrow>
                    (case validate_exactly_one_supabase_item response table unique_field v of
                       Inl e \<Rightarrow> (Inl e, s')
                     | Inr _ \<Rightarrow>
                         (case response of
                            [] \<Rightarrow> (Inl IndexError, s')
                          | r # _ \<Rightarrow> (Inr r, s'))))))"

text \<open>
  \<open>_delete_entry\<close>. Its \<open>isinstance\<close> guard holds for every entity, and
  \<open>obj_to_table\<close> has an entry for every class.
\<close>

definition delete_entry :: "remote \<Rightarrow> entity \<Rightarrow> string option \<Rightarrow> nat res" where
  "delete_entry s obj deletion_key =
     (let table = obj_to_table (etype obj) in
      case (case deletion_key of
              Some k \<Rightarrow> Inr k
            | None \<Rightarrow>
                (case unique_fields obj of
                   [] \<Rightarrow> Inl IndexError
                 | k # _ \<Rightarrow>
                     (case getattr obj k of
                        Inl e \<Rightarrow> Inl e
                      | Inr v \<Rightarrow> if v = VNull then Inl (ValueError (NoDeletionValue k)) else Inr k))) of
        Inl e \<Rightarrow> (Inl e, s)
      | Inr k \<Rightarrow>
          (case getattr obj k of
             Inl e \<Rightarrow> (Inl e, s)
           | Inr v \<Rightarrow>
               (case table_delete_eq s table k v of
                  (response, s') \<Rightarrow>
                    (let items_deleted = length response in
                     if items_deleted = 0 then (Inl (NoEntryFoundError table k v), s')
                     else (Inr items_deleted, s')))))"

subsection \<open>Clock and time formatting\<close>

text \<open>
  A \<open>datetime\<close> value, and the two readings of the clock the module takes:
  \<open>datetime.utcnow()\<close> and \<open>datetime.now()\<close> (local time).
\<close>

record datetime =
  year :: nat
  month :: nat
  day :: nat
  hour :: nat
  minute :: nat
  second :: nat
  microsecond :: nat

record clock =
  utcnow :: datetime
  now :: datetime

definition digit :: "nat \<Rightarrow> char" where
  "digit n = ''0123456789'' ! (n mod 10)"

definition pad2 :: "nat \<Rightarrow> string" where
  "pad2 n = [digit (n div 10), digit n]"

definition pad4 :: "nat \<Rightarrow> string" where
  "pad4 n = [digit (n div 1000), digit (n div 100), digit (n div 10), digit n]"

definition pad6 :: "nat \<Rightarrow> string" where
  "pad6 n = [digit (n div 100000), digit (n div 10000), digit (n div 1000),
             digit (n div 100), digit (n div 10), digit n]"

text \<open>\<open>dt.strftime('%Y-%m-%d_%H-%M-%S')\<close>.\<close>

definition strftime_path :: "datetime \<Rightarrow> string" where
  "strftime_path dt =
     pad4 (year dt) @ ''-'' @ pad2 (month dt) @ ''-'' @ pad2 (day dt) @ ''_'' @
     pad2 (hour dt) @ ''-'' @ pad2 (minute dt) @ ''-'' @ pad2 (second dt)"

text \<open>\<open>str(dt)\<close>: ISO format with a space, microseconds only when not zero.\<close>

definition str_datetime :: "datetime \<Rightarrow> string" where
  "str_datetime dt =
     pad4 (year dt) @ ''-'' @ pad2 (month dt) @ ''-'' @ pad2 (day dt) @ '' '' @
     pad2 (hour dt) @ '':'' @ pad2 (minute dt) @ '':'' @ pad2 (second dt) @
     (if microsecond dt = 0 then [] else ''.'' @ pad6 (microsecond dt))"

subsection \<open>Users\<close>

definition get_user :: "remote \<Rightarrow> entity \<Rightarrow> entity res" where
  "get_user s data =
     (case get_obj_info s ''users'' data of
        (Inl e, s') \<Rightarrow> (Inl e, s')
      | (Inr r, s') \<Rightarrow> (construct data r, s'))"

definition add_user :: "remote \<Rightarrow> entity \<Rightarrow> entity res" where
  "add_user s user =
     (case check_duplicates s ''users'' user of
        (Inl e, s1) \<Rightarrow> (Inl e, s1)
      | (Inr duplicates, s1) \<Rightarrow>
          if truthy duplicates then (Inl DuplicateEntryError, s1)
          else
            (case table_insert s1 ''users'' (to_dict user) of
               (r, s2) \<Rightarrow>
                 (case r of [] \<Rightarrow> (Inl IndexError, s2) | r0 # _ \<Rightarrow> (construct user r0, s2))))"

text \<open>\<open>type(x).__name__\<close>.\<close>

fun type_name :: "val \<Rightarrow> string" where
  "type_name VNull = ''NoneType''"
| "type_name (VStr x) = ''str''"
| "type_name (VInt x) = ''int''"

text \<open>
  The \<open>dbc.Changelog(...)\<close> object of \<open>update_user\<close>, with the keyword arguments
  of the source.
\<close>

definition changelog_entry :: "string \<Rightarrow> string \<Rightarrow> val \<Rightarrow> string \<Rightarrow> val \<Rightarrow> val \<Rightarrow> entity" where
  "changelog_entry timestamp table_name row_id column_name old_value new_value =
     \<lparr>etype = Changelog, unique_fields = [],
      attrs = [(''timestamp'', VStr timestamp),
               (''table_name'', VStr table_name),
               (''row_id'', row_id),
               (''column_name'', VStr column_name),
               (''column_type'', VStr (type_name new_value)),
               (''old_value'', old_value),
               (''new_value'', new_value)]\<rparr>"

definition add_changelog :: "remote \<Rightarrow> entity \<Rightarrow> (int \<times> string) res" where
  "add_changelog s changelog =
     (case table_insert s ''changelog'' (to_dict changelog) of
        (r, s') \<Rightarrow> (Inr (0, ''Changelog added successfully''), s'))"

text \<open>The \<open>for field in fields_updated\<close> loop of \<open>update_user\<close>.\<close>

fun changelog_loop :: "string \<Rightarrow> entity \<Rightarrow> entity \<Rightarrow> string list \<Rightarrow> remote \<Rightarrow> unit res" where
  "changelog_loop timestamp_utc user_data_full user_update [] s = (Inr (), s)"
| "changelog_loop timestamp_utc user_data_full user_update (field # rest) s =
     (case getattr user_data_full ''user_id'' of
        Inl e \<Rightarrow> (Inl e, s)
      | Inr row_id \<Rightarrow>
          (case getattr user_update field of
             Inl e \<Rightarrow> (Inl e, s)
           | Inr new_value \<Rightarrow>
               (case getattr user_data_full field of
                  Inl e \<Rightarrow> (Inl e, s)
                | Inr old_value \<Rightarrow>
                    (case add_changelog s
                            (changelog_entry timestamp_utc ''users'' row_id field old_value new_value) of
                       (Inl e, s') \<Rightarrow> (Inl e, s')
                     | (Inr _, s') \<Rightarrow>
                         changelog_loop timestamp_utc user_data_full user_update rest s'))))"

definition update_user :: "remote \<Rightarrow> clock \<Rightarrow> entity \<Rightarrow> entity \<Rightarrow> (int \<times> string) res" where
  "update_user s clk user_data user_update =
     (case get_user s user_data of
        (Inl e, s1) \<Rightarrow> (Inl e, s1)
      | (Inr user_data_full, s1) \<Rightarrow>
          (let fields_updated = find_different_fields user_data_full user_update in
           if fields_updated = [] then (Inr (1, ''No fields were updated''), s1)
           else
             (case changelog_loop (str_datetime (utcnow clk)) user_data_full user_update
                     fields_updated s1 of
                (Inl e, s2) \<Rightarrow> (Inl e, s2)
              | (Inr _, s2) \<Rightarrow>
                  (case getattr user_data_full ''user_id'' of
                     Inl e \<Rightarrow> (Inl e, s2)
                   | Inr user_id \<Rightarrow>
                       (case table_update_eq s2 ''users'' (to_dict user_update) ''user_id'' user_id of
                          (r, s3) \<Rightarrow> (Inr (0, ''User updated successfully''), s3))))))"

definition delete_user :: "remote \<Rightarrow> entity \<Rightarrow> (int \<times> string) res" where
  "delete_user s user =
     (case get_user s user of
        (Inl e, s1) \<Rightarrow> (Inl e, s1)
      | (Inr user_full, s1) \<Rightarrow>
          (case getattr user_full ''user_id'' of
             Inl e \<Rightarrow> (Inl e, s1)
           | Inr user_id \<Rightarrow>
               (case table_delete_eq s1 ''users'' ''user_id'' user_id of
                  (r, s2) \<Rightarrow> (Inr (0, ''User deleted successfully''), s2))))"

subsection \<open>Messages and files\<close>

definition get_message :: "remote \<Rightarrow> entity \<Rightarrow> entity res" where
  "get_message s message =
     (case get_obj_info s ''messages'' message of
        (Inl e, s') \<Rightarrow> (Inl e, s')
      | (Inr r, s') \<Rightarrow> (construct message r, s'))"

definition add_message :: "remote \<Rightarrow> entity \<Rightarrow> entity res" where
  "add_message s msg_data =
     (case check_duplicates s ''messages'' msg_data of
        (Inl e, s1) \<Rightarrow> (Inl e, s1)
      | (Inr duplicates, s1) \<Rightarrow>
          if truthy duplicates then (Inl DuplicateEntryError, s1)
          else
            (case table_insert s1 ''messages'' (to_dict msg_data) of
               (r, s2) \<Rightarrow>
                 (case r of
                    [] \<Rightarrow> (Inl IndexError, s2)
                  | r0 # _ \<Rightarrow> (construct msg_data (filter (\<lambda>(k, v). v \<noteq> VNull) r0), s2))))"

definition update_message :: "remote \<Rightarrow> entity \<Rightarrow> entity \<Rightarrow> (int \<times> string) res" where
  "update_message s msg_data msg_update =
     (case get_message s msg_data of
        (Inl e, s1) \<Rightarrow> (Inl e, s1)
      | (Inr msg_data_full, s1) \<Rightarrow>
          (case getattr msg_data_full ''message_id'' of
             Inl e \<Rightarrow> (Inl e, s1)
           | Inr message_id \<Rightarrow>
               (case table_update_eq s1 ''messages'' (to_dict msg_update) ''message_id'' message_id of
                  (r, s2) \<Rightarrow> (Inr (0, ''Message updated successfully''), s2))))"

definition get_file :: "remote \<Rightarrow> entity \<Rightarrow> entity res" where
  "get_file s data =
     (case get_obj_info s ''files'' data of
        (Inl e, s') \<Rightarrow> (Inl e, s')
      | (Inr r, s') \<Rightarrow> (construct data r, s'))"

definition add_file :: "remote \<Rightarrow> entity \<Rightarrow> entity res" where
  "add_file s file =
     (case check_duplicates s ''files'' file of
        (Inl e, s1) \<Rightarrow> (Inl e, s1)
      | (Inr duplicates, s1) \<Rightarrow>
          if truthy duplicates then (Inl DuplicateEntryError, s1)
          else
            (case table_insert s1 ''files'' (to_dict file) of
               (response, s2) \<Rightarrow>
                 if length response \<noteq> 1 then (Inl AssertionError, s2)
                 else
                   (case response of
                      [] \<Rightarrow> (Inl IndexError, s2)
                    | file_data # _ \<Rightarrow> (construct file file_data, s2))))"

subsection \<open>Addresses, drafts, attachments\<close>

definition add_address :: "remote \<Rightarrow> entity \<Rightarrow> entity res" where
  "add_address s address =
     (case getattr address ''user_id'' of
        Inl e \<Rightarrow> (Inl e, s)
      | Inr user_id \<Rightarrow>
          if user_id = VNull then (Inl (ValueError AddressNoUserId), s)
          else
            (case table_insert s ''addresses'' (to_dict address) of
               (response, s1) \<Rightarrow>
                 (case response of
                    [] \<Rightarrow> (Inl IndexError, s1)
                  | r0 # _ \<Rightarrow> (construct address r0, s1))))"

definition delete_address :: "remote \<Rightarrow> entity \<Rightarrow> (int \<times> string) res" where
  "delete_address s address =
     (case getattr address ''address_id'' of
        Inl e \<Rightarrow> (Inl e, s)
      | Inr address_id \<Rightarrow>
          if address_id = VNull then (Inl (ValueError AddressNoAddressId), s)
          else
            (case table_delete_eq s ''addresses'' ''address_id'' address_id of
               (r, s1) \<Rightarrow> (Inr (0, ''Address deleted successfully''), s1)))"

definition add_draft :: "remote \<Rightarrow> entity \<Rightarrow> entity res" where
  "add_draft s draft =
     (case table_insert s ''drafts'' (to_dict draft) of
        (response, s1) \<Rightarrow>
          if length response \<noteq> 1 then (Inl AssertionError, s1)
          else
            (case response of
               [] \<Rightarrow> (Inl IndexError, s1)
             | draft_data # _ \<Rightarrow> (construct draft draft_data, s1)))"

definition add_attachment :: "remote \<Rightarrow> entity \<Rightarrow> entity res" where
  "add_attachment s attachment =
     (case table_insert s ''attachments'' (to_dict attachment) of
        (response, s1) \<Rightarrow>
          if length response \<noteq> 1 then (Inl AssertionError, s1)
          else
            (case response of
               [] \<Rightarrow> (Inl IndexError, s1)
             | attachment_data # _ \<Rightarrow> (construct attachment attachment_data, s1)))"

definition get_draft :: "remote \<Rightarrow> entity \<Rightarrow> entity res" where
  "get_draft s draft =
     (case get_obj_info s ''drafts'' draft of
        (Inl e, s') \<Rightarrow> (Inl e, s')
      | (Inr r, s') \<Rightarrow> (construct draft r, s'))"

subsection \<open>Blob upload\<close>

definition upload_file :: "remote \<Rightarrow> clock \<Rightarrow> bytes \<Rightarrow> string \<Rightarrow> string \<Rightarrow> string res" where
  "upload_file s clk filebytes user_id mime_type =
     (case (if mime_type = ''audio/ogg'' then Inr ''.ogg''
            else if mime_type = ''application/pdf'' then Inr ''.pdf''
            else Inl (ValueError (MimeNotSupported mime_type))) of
        Inl e \<Rightarrow> (Inl e, s)
      | Inr ext \<Rightarrow>
          (let bucket_path = ''memos/'' @ user_id @ ''/'' @ strftime_path (now clk) @ ext in
           (Inr bucket_path, storage_upload s filebytes bucket_path mime_type)))"

subsection \<open>Orders\<close>

text \<open>The loop over the required fields at the head of \<open>add_order\<close>.\<close>

fun require_fields :: "entity \<Rightarrow> string list \<Rightarrow> error + unit" where
  "require_fields order [] = Inr ()"
| "require_fields order (field # rest) =
     (case getattr order field of
        Inl e \<Rightarrow> Inl e
      | Inr v \<Rightarrow>
          if v = VNull then Inl (ValueError (OrderMissing field)) else require_fields order rest)"

text \<open>\<open>', '.join(xs)\<close>.\<close>

fun join_comma :: "string list \<Rightarrow> string" where
  "join_comma [] = []"
| "join_comma [x] = x"
| "join_comma (x # y # ys) = x @ '', '' @ join_comma (y # ys)"

text \<open>
  \<open>add_order\<close>. The join over \<open>duplicates\<close> is reached only when \<open>duplicates\<close> is
  a non-empty list.
\<close>

definition add_order :: "remote \<Rightarrow> entity \<Rightarrow> (int \<times> string) res" where
  "add_order s order =
     (case require_fields order [''user_id'', ''draft_id'', ''address_id'', ''blob_path''] of
        Inl e \<Rightarrow> (Inl e, s)
      | Inr _ \<Rightarrow>
          (case check_duplicates s ''orders'' order of
             (Inl e, s1) \<Rightarrow> (Inl e, s1)
           | (Inr duplicates, s1) \<Rightarrow>
               if truthy duplicates then
                 (Inr (1, ''A existing user was already found with '' @
                          join_comma (case duplicates of None \<Rightarrow> [] | Some l \<Rightarrow> l)), s1)
               else
                 (case table_insert s1 ''orders'' (to_dict order) of
                    (r, s2) \<Rightarrow> (Inr (0, ''Order added successfully''), s2))))"

text \<open>
  \<open>get_order\<close>: the body is the bare call, so the Python function returns
  \<open>None\<close> whenever the call returns.
\<close>

definition get_order :: "remote \<Rightarrow> entity \<Rightarrow> (entity option) res" where
  "get_order s order =
     (case get_obj_info s ''orders'' order of
        (Inl e, s') \<Rightarrow> (Inl e, s')
      | (Inr r, s') \<Rightarrow> (Inr None, s'))"

section \<open>Reference notions used by the properties\<close>

text \<open>
  The invariant of the data model: every name in \<open>_unique_fields\<close> is an
  attribute the class declares.
\<close>

definition declares_unique_fields :: "entity \<Rightarrow> bool" where
  "declares_unique_fields obj = list_all (\<lambda>g. map_of (attrs obj) g \<noteq> None) (unique_fields obj)"

text \<open>
  The selection policy in the words of the specification: the first unique
  field, in declared order, that is populated, with its value.
\<close>

fun first_populated :: "row \<Rightarrow> string list \<Rightarrow> (string \<times> val) option" where
  "first_populated a [] = None"
| "first_populated a (f # fs) =
     (case map_of a f of
        None \<Rightarrow> first_populated a fs
      | Some v \<Rightarrow> if v = VNull then first_populated a fs else Some (f, v))"

text \<open>The stored rows of table \<open>t\<close> whose column \<open>k\<close> equals \<open>v\<close>.\<close>

definition matching :: "remote \<Rightarrow> string \<Rightarrow> string \<Rightarrow> val \<Rightarrow> row list" where
  "matching s t k v = filter (matches k v) (tables s t)"

text \<open>The store after it received the calls \<open>cs\<close> and changed nothing else.\<close>

definition logged :: "remote \<Rightarrow> call list \<Rightarrow> remote" where
  "logged s cs = s\<lparr>calls := calls s @ cs\<rparr>"

text \<open>
  At least one populated unique field of the input already has a matching row
  in table \<open>t\<close>.
\<close>

definition has_duplicate :: "remote \<Rightarrow> string \<Rightarrow> entity \<Rightarrow> bool" where
  "has_duplicate s t data =
     list_ex (\<lambda>k. case map_of (to_dict data) k of None \<Rightarrow> False | Some v \<Rightarrow> matching s t k v \<noteq> [])
             (unique_fields data)"

text \<open>The selects of the duplicate check: one per populated unique field.\<close>

definition duplicate_checks :: "string \<Rightarrow> entity \<Rightarrow> call list" where
  "duplicate_checks t data =
     concat (map (\<lambda>k. case map_of (to_dict data) k of None \<Rightarrow> [] | Some v \<Rightarrow> [Select t k v])
                 (unique_fields data))"

text \<open>
  The identifier of the row the server stores for the payload \<open>r\<close>: the one
  the payload carries, else the one the server generates.
\<close>

definition assigned_id :: "remote \<Rightarrow> string \<Rightarrow> row \<Rightarrow> val" where
  "assigned_id s t r = (case map_of r (pkey s t) of Some v \<Rightarrow> v | None \<Rightarrow> VInt (int (next_id s)))"

text \<open>The store after one insert of \<open>r\<close> into \<open>t\<close>.\<close>

definition inserted :: "remote \<Rightarrow> string \<Rightarrow> row \<Rightarrow> remote" where
  "inserted s t r = snd (table_insert s t r)"

text \<open>
  The insert contract of an add operation \<open>add\<close> on table \<open>t\<close>: it raises
  \<open>DuplicateEntryError\<close> exactly when a populated unique field has a matching
  row; then the store has received the selects of the check and nothing else;
  when it returns a record, the store has received those selects and one
  insert of the input's dict, and the record carries the identifier of the
  stored row, which is not \<open>None\<close>.
\<close>

definition checked_add :: "(remote \<Rightarrow> entity \<Rightarrow> entity res) \<Rightarrow> string \<Rightarrow> remote \<Rightarrow> entity \<Rightarrow> bool" where
  "checked_add add t s u =
     ((fst (add s u) = Inl DuplicateEntryError \<longleftrightarrow> has_duplicate s t u) \<and>
      (has_duplicate s t u \<longrightarrow> snd (add s u) = logged s (duplicate_checks t u)) \<and>
      (\<forall>rec. fst (add s u) = Inr rec \<longrightarrow>
         snd (add s u) = inserted (logged s (duplicate_checks t u)) t (to_dict u) \<and>
         getattr rec (pkey s t) = Inr (assigned_id s t (to_dict u)) \<and>
         assigned_id s t (to_dict u) \<noteq> VNull))"

text \<open>The store after one delete on table \<open>t\<close> filtered on \<open>k = v\<close>.\<close>

definition deleted :: "remote \<Rightarrow> string \<Rightarrow> string \<Rightarrow> val \<Rightarrow> remote" where
  "deleted s t k v = snd (table_delete_eq s t k v)"

text \<open>
  The key a generic delete filters on, with its value: the explicit alternate
  key when one is given, else the first unique field, which must be populated.
\<close>

definition deletion_target :: "entity \<Rightarrow> string option \<Rightarrow> (string \<times> val) option" where
  "deletion_target obj deletion_key =
     (case deletion_key of
        Some k \<Rightarrow> map_option (Pair k) (map_of (attrs obj) k)
      | None \<Rightarrow>
          (case unique_fields obj of
             [] \<Rightarrow> None
           | k # _ \<Rightarrow>
               (case map_of (attrs obj) k of
                  None \<Rightarrow> None
                | Some v \<Rightarrow> if v = VNull then None else Some (k, v))))"

text \<open>The value of attribute \<open>c\<close> of an entity, \<open>None\<close> when it has none.\<close>

definition value_of :: "entity \<Rightarrow> string \<Rightarrow> val" where
  "value_of obj c = (case map_of (attrs obj) c of None \<Rightarrow> VNull | Some v \<Rightarrow> v)"

text \<open>The value of column \<open>k\<close> of a row; an absent column is null.\<close>

definition col :: "row \<Rightarrow> string \<Rightarrow> val" where
  "col r k = (case map_of r k of None \<Rightarrow> VNull | Some v \<Rightarrow> v)"

text \<open>The columns \<open>update_user\<close> fills in a changelog row.\<close>

definition changelog_columns :: "string list" where
  "changelog_columns =
     [''timestamp'', ''table_name'', ''row_id'', ''column_name'', ''column_type'',
      ''old_value'', ''new_value'']"

text \<open>
  A changelog row records the timestamp, the table name, the row identifier,
  the column name, the previous value and the new value of one change.
\<close>

definition records_change :: "row \<Rightarrow> string \<Rightarrow> string \<Rightarrow> val \<Rightarrow> string \<Rightarrow> val \<Rightarrow> val \<Rightarrow> bool" where
  "records_change r timestamp table_name row_id column_name old_value new_value =
     (col r ''timestamp'' = VStr timestamp \<and>
      col r ''table_name'' = VStr table_name \<and>
      col r ''row_id'' = row_id \<and>
      col r ''column_name'' = VStr column_name \<and>
      col r ''old_value'' = old_value \<and>
      col r ''new_value'' = new_value)"

text \<open>
  The changelog insertion \<open>update_user\<close> issues for the differing field \<open>c\<close>.
\<close>

definition changelog_insert :: "string \<Rightarrow> entity \<Rightarrow> entity \<Rightarrow> val \<Rightarrow> string \<Rightarrow> call" where
  "changelog_insert timestamp full upd row_id c =
     Insert ''changelog''
       (to_dict (changelog_entry timestamp ''users'' row_id c (value_of full c) (value_of upd c)))"

text \<open>The store after one update of table \<open>t\<close> filtered on \<open>k = v\<close>.\<close>

definition updated :: "remote \<Rightarrow> string \<Rightarrow> row \<Rightarrow> string \<Rightarrow> val \<Rightarrow> remote" where
  "updated s t u k v = snd (table_update_eq s t u k v)"

section \<open>Example data\<close>

definition example_clock :: clock where
  "example_clock =
     \<lparr>utcnow = \<lparr>year = 2024, month = 3, day = 9, hour = 12, minute = 5, second = 7, microsecond = 0\<rparr>,
      now = \<lparr>year = 2024, month = 3, day = 9, hour = 13, minute = 5, second = 7, microsecond = 0\<rparr>\<rparr>"

definition example_pkey :: "string \<Rightarrow> string" where
  "example_pkey t =
     (if t = ''users'' then ''user_id''
      else if t = ''messages'' then ''message_id''
      else if t = ''drafts'' then ''draft_id''
      else if t = ''addresses'' then ''address_id''
      else ''id'')"

definition empty_store :: remote where
  "empty_store =
     \<lparr>tables = (\<lambda>t. []), pkey = example_pkey, next_id = 1, bucket = ''grannymail'',
      blobs = (\<lambda>p. None), calls = []\<rparr>"

definition ann_row :: row where
  "ann_row = [(''user_id'', VInt 7), (''email'', VStr ''a@example.com''), (''first_name'', VStr ''Ann'')]"

definition store_ann :: remote where
  "store_ann = empty_store\<lparr>tables := (\<lambda>t. if t = ''users'' then [ann_row] else []), next_id := 8\<rparr>"

definition store_twins :: remote where
  "store_twins =
     empty_store\<lparr>tables := (\<lambda>t. [[(''user_id'', VInt 7), (''email'', VStr ''a@example.com'')],
                                  [(''user_id'', VInt 8), (''email'', VStr ''a@example.com'')]]),
                 next_id := 9\<rparr>"

definition user_fields :: "string list" where
  "user_fields = [''user_id'', ''email'', ''phone_number'', ''telegram_id'']"

definition blank_user :: entity where
  "blank_user =
     \<lparr>etype = User, unique_fields = user_fields,
      attrs = [(''user_id'', VNull), (''email'', VNull), (''phone_number'', VNull),
               (''telegram_id'', VNull), (''first_name'', VNull)]\<rparr>"

definition user_by_email :: entity where
  "user_by_email =
     \<lparr>etype = User, unique_fields = user_fields,
      attrs = [(''user_id'', VNull), (''email'', VStr ''a@example.com''), (''phone_number'', VNull),
               (''telegram_id'', VNull), (''first_name'', VNull)]\<rparr>"

definition order_fields :: "string list" where
  "order_fields = [''order_id'']"

definition order_row :: row where
  "order_row = [(''order_id'', VInt 3), (''user_id'', VInt 7), (''draft_id'', VInt 5),
                (''address_id'', VInt 2), (''blob_path'', VStr ''memos/7/x.pdf'')]"

definition store_order :: remote where
  "store_order = empty_store\<lparr>tables := (\<lambda>t. if t = ''orders'' then [order_row] else []), next_id := 8\<rparr>"

definition order_by_id :: entity where
  "order_by_id =
     \<lparr>etype = Order, unique_fields = order_fields,
      attrs = [(''order_id'', VInt 3), (''user_id'', VNull), (''draft_id'', VNull),
               (''address_id'', VNull), (''blob_path'', VNull)]\<rparr>"

definition new_order :: entity where
  "new_order =
     \<lparr>etype = Order, unique_fields = order_fields,
      attrs = [(''order_id'', VInt 3), (''user_id'', VInt 7), (''draft_id'', VInt 5),
               (''address_id'', VInt 2), (''blob_path'', VStr ''memos/7/x.pdf'')]\<rparr>"

definition new_user :: entity where
  "new_user =
     \<lparr>etype = User, unique_fields = user_fields,
      attrs = [(''user_id'', VNull), (''email'', VStr ''b@example.com''), (''phone_number'', VNull),
               (''telegram_id'', VNull), (''first_name'', VStr ''Bob'')]\<rparr>"

definition draft_row :: row where
  "draft_row = [(''draft_id'', VInt 5), (''user_id'', VInt 7), (''text'', VStr ''Dear granny'')]"

definition store_draft :: remote where
  "store_draft = empty_store\<lparr>tables := (\<lambda>t. if t = ''drafts'' then [draft_row] else []), next_id := 8\<rparr>"

definition dup_draft :: entity where
  "dup_draft =
     \<lparr>etype = Draft, unique_fields = [''draft_id''],
      attrs = [(''draft_id'', VInt 5), (''user_id'', VInt 7), (''text'', VStr ''Hello again'')]\<rparr>"

definition msg_row :: row where
  "msg_row = [(''message_id'', VInt 4), (''user_id'', VInt 7), (''message_body'', VStr ''hello'')]"

definition store_msg :: remote where
  "store_msg = empty_store\<lparr>tables := (\<lambda>t. if t = ''messages'' then [msg_row] else []), next_id := 8\<rparr>"

definition msg_by_id :: entity where
  "msg_by_id =
     \<lparr>etype = Message, unique_fields = [''message_id''],
      attrs = [(''message_id'', VInt 4), (''user_id'', VNull), (''message_body'', VNull)]\<rparr>"

definition msg_same :: entity where
  "msg_same =
     \<lparr>etype = Message, unique_fields = [''message_id''],
      attrs = [(''message_id'', VInt 4), (''user_id'', VInt 7), (''message_body'', VStr ''hello'')]\<rparr>"

definition msg_edit :: entity where
  "msg_edit =
     \<lparr>etype = Message, unique_fields = [''message_id''],
      attrs = [(''message_id'', VInt 4), (''user_id'', VInt 7), (''message_body'', VStr ''bye'')]\<rparr>"

definition ann_full :: entity where
  "ann_full =
     \<lparr>etype = User, unique_fields = user_fields,
      attrs = [(''user_id'', VInt 7), (''email'', VStr ''a@example.com''), (''phone_number'', VNull),
               (''telegram_id'', VNull), (''first_name'', VStr ''Ann'')]\<rparr>"

definition address_fields :: "string list" where
  "address_fields = [''address_id'']"

definition address_row :: row where
  "address_row = [(''address_id'', VInt 2), (''user_id'', VInt 7), (''city'', VStr ''Bern'')]"

definition store_address :: remote where
  "store_address = empty_store\<lparr>tables := (\<lambda>t. if t = ''addresses'' then [address_row] else []), next_id := 8\<rparr>"

definition address_by_id :: entity where
  "address_by_id =
     \<lparr>etype = Address, unique_fields = address_fields,
      attrs = [(''address_id'', VInt 2), (''user_id'', VNull), (''city'', VNull)]\<rparr>"

definition ann_update :: entity where
  "ann_update =
     \<lparr>etype = User, unique_fields = user_fields,
      attrs = [(''user_id'', VInt 7), (''email'', VStr ''ann@example.com''), (''phone_number'', VNull),
               (''telegram_id'', VNull), (''first_name'', VStr ''Anna'')]\<rparr>"


section \<open>Lookup: selection of the key and validation of the response\<close>

lemma populated_fields_first:
  "list_all (\<lambda>g. map_of (attrs obj) g \<noteq> None) fs \<Longrightarrow>
   \<exists>r. populated_fields obj fs = Inr r \<and>
       (case first_populated (attrs obj) fs of
          None \<Rightarrow> r = []
        | Some (f, v) \<Rightarrow> (\<exists>rest. r = f # rest) \<and> getattr obj f = Inr v)"
proof (induction fs)
  case Nil
  then show ?case by simp
next
  case (Cons g fs)
  then obtain w where w: "map_of (attrs obj) g = Some w" by auto
  from Cons obtain r where r: "populated_fields obj fs = Inr r"
    and rc: "(case first_populated (attrs obj) fs of
          None \<Rightarrow> r = []
        | Some (f, v) \<Rightarrow> (\<exists>rest. r = f # rest) \<and> getattr obj f = Inr v)" by auto
  show ?case
  proof (cases "w = VNull")
    case True
    then show ?thesis using w r rc by (simp add: getattr_def)
  next
    case False
    then show ?thesis using w r by (simp add: getattr_def)
  qed
qed

lemma get_obj_info_selected:
  assumes "declares_unique_fields obj"
      and "first_populated (attrs obj) (unique_fields obj) = Some (f, v)"
  shows "get_obj_info s t obj =
           (case matching s t f v of
              [] \<Rightarrow> (Inl (NoEntryFoundError t f v), logged s [Select t f v])
            | [r] \<Rightarrow> (Inr r, logged s [Select t f v])
            | r # r' # rs \<Rightarrow> (Inl (ValueError (MoreThanOneFound f v)), logged s [Select t f v]))"
proof -
  from populated_fields_first [of obj "unique_fields obj"] assms
  obtain rest where p: "populated_fields obj (unique_fields obj) = Inr (f # rest)"
    and g: "getattr obj f = Inr v"
    by (auto simp: declares_unique_fields_def)
  show ?thesis
    by (simp add: get_obj_info_def p g table_select_eq_def matching_def logged_def
        validate_exactly_one_supabase_item_def split: list.splits)
qed

lemma get_obj_info_rejected:
  assumes "declares_unique_fields obj"
      and "first_populated (attrs obj) (unique_fields obj) = None"
  shows "get_obj_info s t obj = (Inl (ValueError NoUniqueFields), s)"
proof -
  from populated_fields_first [of obj "unique_fields obj"] assms
  have p: "populated_fields obj (unique_fields obj) = Inr []"
    by (auto simp: declares_unique_fields_def)
  show ?thesis by (simp add: get_obj_info_def p)
qed

lemma get_obj_info_none:
  assumes "declares_unique_fields obj"
      and "first_populated (attrs obj) (unique_fields obj) = Some (f, v)"
      and "matching s t f v = []"
  shows "get_obj_info s t obj = (Inl (NoEntryFoundError t f v), logged s [Select t f v])"
  using get_obj_info_selected [OF assms(1,2), of s t] assms(3) by simp

lemma get_obj_info_many:
  assumes "declares_unique_fields obj"
      and "first_populated (attrs obj) (unique_fields obj) = Some (f, v)"
      and "1 < length (matching s t f v)"
  shows "get_obj_info s t obj = (Inl (ValueError (MoreThanOneFound f v)), logged s [Select t f v])"
  using get_obj_info_selected [OF assms(1,2), of s t] assms(3)
  by (cases "matching s t f v" rule: remdups_adj.cases) auto

lemma get_obj_info_one:
  assumes "declares_unique_fields obj"
      and "first_populated (attrs obj) (unique_fields obj) = Some (f, v)"
      and "matching s t f v = [r]"
  shows "get_obj_info s t obj = (Inr r, logged s [Select t f v])"
  using get_obj_info_selected [OF assms(1,2), of s t] assms(3) by simp

lemma get_obj_info_log:
  assumes "declares_unique_fields obj"
      and "first_populated (attrs obj) (unique_fields obj) = Some (f, v)"
  shows "snd (get_obj_info s t obj) = logged s [Select t f v]"
  using get_obj_info_selected [OF assms, of s t]
  by (cases "matching s t f v" rule: remdups_adj.cases) auto

lemma get_user_state: "snd (get_user s d) = snd (get_obj_info s ''users'' d)"
  by (simp add: get_user_def split: prod.splits sum.splits)

lemma get_message_state: "snd (get_message s d) = snd (get_obj_info s ''messages'' d)"
  by (simp add: get_message_def split: prod.splits sum.splits)

lemma get_file_state: "snd (get_file s d) = snd (get_obj_info s ''files'' d)"
  by (simp add: get_file_def split: prod.splits sum.splits)

lemma get_draft_state: "snd (get_draft s d) = snd (get_obj_info s ''drafts'' d)"
  by (simp add: get_draft_def split: prod.splits sum.splits)

lemma get_order_state: "snd (get_order s d) = snd (get_obj_info s ''orders'' d)"
  by (simp add: get_order_def split: prod.splits sum.splits)

text \<open>
  \<open>first_populated\<close> is the first populated field in declared order: every
  field before the selected one is unpopulated.
\<close>

lemma first_populated_is_first:
  "first_populated a fs = Some (f, v) \<Longrightarrow>
   \<exists>pre post. fs = pre @ f # post \<and> map_of a f = Some v \<and> v \<noteq> VNull \<and>
     (\<forall>g \<in> set pre. map_of a g = None \<or> map_of a g = Some VNull)"
proof (induction fs)
  case Nil
  then show ?case by simp
next
  case (Cons g fs)
  show ?case
  proof (cases "map_of a g = None \<or> map_of a g = Some VNull")
    case True
    with Cons.prems have "first_populated a fs = Some (f, v)" by auto
    from Cons.IH [OF this] obtain pre post where
      "fs = pre @ f # post" "map_of a f = Some v" "v \<noteq> VNull"
      "\<forall>g \<in> set pre. map_of a g = None \<or> map_of a g = Some VNull" by blast
    with True have "g # fs = (g # pre) @ f # post \<and> map_of a f = Some v \<and> v \<noteq> VNull \<and>
      (\<forall>h \<in> set (g # pre). map_of a h = None \<or> map_of a h = Some VNull)" by simp
    then show ?thesis by blast
  next
    case False
    with Cons.prems have "g = f" "map_of a f = Some v" "v \<noteq> VNull"
      by (auto split: option.splits if_splits)
    then have "g # fs = [] @ f # fs \<and> map_of a f = Some v \<and> v \<noteq> VNull \<and>
      (\<forall>h \<in> set []. map_of a h = None \<or> map_of a h = Some VNull)" by simp
    then show ?thesis by blast
  qed
qed

text \<open>
  C3. Every lookup (\<open>get_user\<close>, \<open>get_message\<close>, \<open>get_file\<close>, \<open>get_draft\<close>,
  \<open>get_order\<close>) on an entity with a populated unique field fails with
  \<open>NoEntryFoundError\<close> (the specification's NotFoundError) when no stored row
  matches the equality filter on the selected field, and with the
  \<open>ValueError\<close> "More than one user found" (the specification's
  AmbiguousResultError, a different error) when more than one row matches.
\<close>

theorem lookup_zero_or_many:
  assumes "declares_unique_fields obj"
      and "first_populated (attrs obj) (unique_fields obj) = Some (f, v)"
  shows "(matching s ''users'' f v = [] \<longrightarrow> fst (get_user s obj) = Inl (NoEntryFoundError ''users'' f v)) \<and>
         (1 < length (matching s ''users'' f v) \<longrightarrow> fst (get_user s obj) = Inl (ValueError (MoreThanOneFound f v))) \<and>
         (matching s ''messages'' f v = [] \<longrightarrow> fst (get_message s obj) = Inl (NoEntryFoundError ''messages'' f v)) \<and>
         (1 < length (matching s ''messages'' f v) \<longrightarrow> fst (get_message s obj) = Inl (ValueError (MoreThanOneFound f v))) \<and>
         (matching s ''files'' f v = [] \<longrightarrow> fst (get_file s obj) = Inl (NoEntryFoundError ''files'' f v)) \<and>
         (1 < length (matching s ''files'' f v) \<longrightarrow> fst (get_file s obj) = Inl (ValueError (MoreThanOneFound f v))) \<and>
         (matching s ''drafts'' f v = [] \<longrightarrow> fst (get_draft s obj) = Inl (NoEntryFoundError ''drafts'' f v)) \<and>
         (1 < length (matching s ''drafts'' f v) \<longrightarrow> fst (get_draft s obj) = Inl (ValueError (MoreThanOneFound f v))) \<and>
         (matching s ''orders'' f v = [] \<longrightarrow> fst (get_order s obj) = Inl (NoEntryFoundError ''orders'' f v)) \<and>
         (1 < length (matching s ''orders'' f v) \<longrightarrow> fst (get_order s obj) = Inl (ValueError (MoreThanOneFound f v))) \<and>
         NoEntryFoundError t f v \<noteq> ValueError (MoreThanOneFound f v)"
  by (simp add: get_user_def get_message_def get_file_def get_draft_def get_order_def
      get_obj_info_none [OF assms] get_obj_info_many [OF assms])

theorem lookup_zero_or_many_witness:
  "fst (get_user empty_store user_by_email) =
     Inl (NoEntryFoundError ''users'' ''email'' (VStr ''a@example.com'')) \<and>
   fst (get_user store_twins user_by_email) =
     Inl (ValueError (MoreThanOneFound ''email'' (VStr ''a@example.com''))) \<and>
   fst (get_order empty_store user_by_email) =
     Inl (NoEntryFoundError ''orders'' ''email'' (VStr ''a@example.com'')) \<and>
   fst (get_order store_twins user_by_email) =
     Inl (ValueError (MoreThanOneFound ''email'' (VStr ''a@example.com'')))"
  using lookup_zero_or_many [of user_by_email "''email''" "VStr ''a@example.com''" empty_store "''users''"]
        lookup_zero_or_many [of user_by_email "''email''" "VStr ''a@example.com''" store_twins "''users''"]
  by (simp add: empty_store_def store_twins_def user_by_email_def example_pkey_def
      user_fields_def declares_unique_fields_def matching_def matches_def)

text \<open>
  C8. Given an entity whose unique fields are declared attributes, every
  lookup filters on exactly the first populated unique field in declared
  order: the one call it issues is the select with the equality filter on that
  field. An entity with no populated unique field is rejected with a
  \<open>ValueError\<close> and the store receives no call.
\<close>

theorem lookup_first_populated:
  assumes "declares_unique_fields obj"
  shows "(first_populated (attrs obj) (unique_fields obj) = Some (f, v) \<longrightarrow>
            snd (get_obj_info s t obj) = logged s [Select t f v] \<and>
            snd (get_user s obj) = logged s [Select ''users'' f v] \<and>
            snd (get_message s obj) = logged s [Select ''messages'' f v] \<and>
            snd (get_file s obj) = logged s [Select ''files'' f v] \<and>
            snd (get_draft s obj) = logged s [Select ''drafts'' f v] \<and>
            snd (get_order s obj) = logged s [Select ''orders'' f v]) \<and>
         (first_populated (attrs obj) (unique_fields obj) = None \<longrightarrow>
            get_obj_info s t obj = (Inl (ValueError NoUniqueFields), s) \<and>
            get_user s obj = (Inl (ValueError NoUniqueFields), s) \<and>
            get_message s obj = (Inl (ValueError NoUniqueFields), s) \<and>
            get_file s obj = (Inl (ValueError NoUniqueFields), s) \<and>
            get_draft s obj = (Inl (ValueError NoUniqueFields), s) \<and>
            get_order s obj = (Inl (ValueError NoUniqueFields), s))"
proof (intro conjI impI)
  assume n: "first_populated (attrs obj) (unique_fields obj) = None"
  note r = get_obj_info_rejected [OF assms n]
  show "get_obj_info s t obj = (Inl (ValueError NoUniqueFields), s)" by (rule r)
  show "get_user s obj = (Inl (ValueError NoUniqueFields), s)" by (simp add: get_user_def r)
  show "get_message s obj = (Inl (ValueError NoUniqueFields), s)" by (simp add: get_message_def r)
  show "get_file s obj = (Inl (ValueError NoUniqueFields), s)" by (simp add: get_file_def r)
  show "get_draft s obj = (Inl (ValueError NoUniqueFields), s)" by (simp add: get_draft_def r)
  show "get_order s obj = (Inl (ValueError NoUniqueFields), s)" by (simp add: get_order_def r)
next
  assume p: "first_populated (attrs obj) (unique_fields obj) = Some (f, v)"
  note l = get_obj_info_log [OF assms p]
  show "snd (get_obj_info s t obj) = logged s [Select t f v]" by (rule l)
  show "snd (get_user s obj) = logged s [Select ''users'' f v]" by (simp add: get_user_state l)
  show "snd (get_message s obj) = logged s [Select ''messages'' f v]" by (simp add: get_message_state l)
  show "snd (get_file s obj) = logged s [Select ''files'' f v]" by (simp add: get_file_state l)
  show "snd (get_draft s obj) = logged s [Select ''drafts'' f v]" by (simp add: get_draft_state l)
  show "snd (get_order s obj) = logged s [Select ''orders'' f v]" by (simp add: get_order_state l)
qed

theorem lookup_first_populated_witness:
  "calls (snd (get_user store_ann user_by_email)) = [Select ''users'' ''email'' (VStr ''a@example.com'')] \<and>
   get_user store_ann blank_user = (Inl (ValueError NoUniqueFields), store_ann)"
  using lookup_first_populated [of user_by_email "''email''" "VStr ''a@example.com''" store_ann "''users''"]
        lookup_first_populated [of blank_user "''email''" "VStr ''a@example.com''" store_ann "''users''"]
  by (simp add: store_ann_def blank_user_def user_by_email_def empty_store_def ann_row_def
      user_fields_def example_pkey_def declares_unique_fields_def logged_def)

text \<open>
  C9. When an order has a populated unique field that matches exactly one
  stored row, \<open>get_order\<close> performs the lookup, the exactly-one validation
  passes and yields that row, and \<open>get_order\<close> returns \<open>None\<close>; on no input
  does \<open>get_order\<close> return a record.
\<close>

theorem get_order_discards_row:
  assumes "declares_unique_fields ord"
      and "first_populated (attrs ord) (unique_fields ord) = Some (f, v)"
      and "matching s ''orders'' f v = [r]"
  shows "get_obj_info s ''orders'' ord = (Inr r, logged s [Select ''orders'' f v]) \<and>
         get_order s ord = (Inr None, logged s [Select ''orders'' f v]) \<and>
         fst (get_order s' ord') \<noteq> Inr (Some x)"
proof -
  note o = get_obj_info_one [OF assms]
  have "fst (get_order s' ord') \<noteq> Inr (Some x)"
    by (simp add: get_order_def split: prod.splits sum.splits)
  then show ?thesis by (simp add: get_order_def o)
qed

theorem get_order_discards_row_witness:
  "get_obj_info store_order ''orders'' order_by_id =
     (Inr order_row, logged store_order [Select ''orders'' ''order_id'' (VInt 3)]) \<and>
   get_order store_order order_by_id =
     (Inr None, logged store_order [Select ''orders'' ''order_id'' (VInt 3)])"
  using get_order_discards_row [of order_by_id "''order_id''" "VInt 3" store_order order_row]
  by (simp add: order_row_def store_order_def order_by_id_def empty_store_def order_fields_def
      example_pkey_def declares_unique_fields_def matching_def matches_def)

section \<open>Blob upload\<close>

lemma upload_file_supported:
  "mime_type = ''audio/ogg'' \<or> mime_type = ''application/pdf'' \<Longrightarrow>
   upload_file s clk b u mime_type =
     (Inr (''memos/'' @ u @ ''/'' @ strftime_path (now clk) @
           (if mime_type = ''audio/ogg'' then ''.ogg'' else ''.pdf'')),
      storage_upload s b
        (''memos/'' @ u @ ''/'' @ strftime_path (now clk) @
           (if mime_type = ''audio/ogg'' then ''.ogg'' else ''.pdf'')) mime_type)"
  by (auto simp: upload_file_def Let_def)

lemma strftime_path_length: "length (strftime_path dt) = 19"
  by (simp add: strftime_path_def pad2_def pad4_def)

text \<open>
  C6, as the specification states it, takes the timestamp of the path from
  the current UTC time. The code reads \<open>datetime.now()\<close>, the local time: with
  a clock whose local time is one hour ahead of UTC the returned path is not
  the one built from the UTC time.
\<close>

theorem upload_file_utc_counterexample:
  "fst (upload_file empty_store example_clock [79, 103] ''u1'' ''audio/ogg'') \<noteq>
     Inr (''memos/'' @ ''u1'' @ ''/'' @ strftime_path (utcnow example_clock) @ ''.ogg'')"
  by (simp add: upload_file_def Let_def example_clock_def empty_store_def example_pkey_def
      strftime_path_def pad2_def pad4_def digit_def)

text \<open>
  C6, amended. For each supported MIME type, every user identifier and every
  payload, \<open>upload_file\<close> returns exactly \<open>memos/<user_id>/<timestamp><suffix>\<close>
  where the timestamp is the current local time (\<open>datetime.now()\<close>) formatted as
  \<open>%Y-%m-%d_%H-%M-%S\<close> and the suffix is \<open>.ogg\<close> for \<open>audio/ogg\<close> and \<open>.pdf\<close> for
  \<open>application/pdf\<close>; the payload is uploaded to that path with that content
  type.
\<close>

theorem upload_file_path:
  assumes "mime_type = ''audio/ogg'' \<or> mime_type = ''application/pdf''"
  shows "fst (upload_file s clk b u mime_type) =
           Inr (''memos/'' @ u @ ''/'' @ strftime_path (now clk) @
                (if mime_type = ''audio/ogg'' then ''.ogg'' else ''.pdf'')) \<and>
         calls (snd (upload_file s clk b u mime_type)) =
           calls s @ [Upload (bucket s)
                        (''memos/'' @ u @ ''/'' @ strftime_path (now clk) @
                         (if mime_type = ''audio/ogg'' then ''.ogg'' else ''.pdf''))
                        b mime_type] \<and>
         strftime_path (now clk) =
           pad4 (year (now clk)) @ ''-'' @ pad2 (month (now clk)) @ ''-'' @ pad2 (day (now clk)) @ ''_'' @
           pad2 (hour (now clk)) @ ''-'' @ pad2 (minute (now clk)) @ ''-'' @ pad2 (second (now clk))"
  using upload_file_supported [OF assms, of s clk b u]
  by (simp add: storage_upload_def strftime_path_def)

theorem upload_file_path_witness:
  "fst (upload_file empty_store example_clock [37, 80] ''u1'' ''application/pdf'') =
     Inr ''memos/u1/2024-03-09_13-05-07.pdf'' \<and>
   calls (snd (upload_file empty_store example_clock [37, 80] ''u1'' ''application/pdf'')) =
     [Upload ''grannymail'' ''memos/u1/2024-03-09_13-05-07.pdf'' [37, 80] ''application/pdf'']"
  using upload_file_path [of "''application/pdf''" empty_store example_clock "[37, 80]" "''u1''"]
  by (simp add: example_clock_def empty_store_def example_pkey_def strftime_path_def pad2_def
      pad4_def digit_def)

text \<open>
  C7. With MIME type \<open>audio/ogg\<close> the returned path ends in \<open>.ogg\<close>, with
  \<open>application/pdf\<close> it ends in \<open>.pdf\<close>; with any other MIME type \<open>upload_file\<close>
  raises the \<open>ValueError\<close> "mime_type ... not supported" (the specification's
  UnsupportedMediaTypeError) and the store is left as it was: the blob store
  received no call.
\<close>

theorem upload_file_suffix_or_error:
  "(mime_type = ''audio/ogg'' \<longrightarrow>
      (\<exists>p. upload_file s clk b u mime_type = (Inr p, storage_upload s b p mime_type) \<and>
           suffix ''.ogg'' p)) \<and>
   (mime_type = ''application/pdf'' \<longrightarrow>
      (\<exists>p. upload_file s clk b u mime_type = (Inr p, storage_upload s b p mime_type) \<and>
           suffix ''.pdf'' p)) \<and>
   (mime_type \<noteq> ''audio/ogg'' \<and> mime_type \<noteq> ''application/pdf'' \<longrightarrow>
      upload_file s clk b u mime_type = (Inl (ValueError (MimeNotSupported mime_type)), s))"
  by (auto simp: upload_file_def Let_def suffix_def)

theorem upload_file_suffix_or_error_witness:
  "(\<exists>p. upload_file empty_store example_clock [79, 103] ''u1'' ''audio/ogg'' =
          (Inr p, storage_upload empty_store [79, 103] p ''audio/ogg'') \<and> suffix ''.ogg'' p) \<and>
   (\<exists>p. upload_file empty_store example_clock [37, 80] ''u1'' ''application/pdf'' =
          (Inr p, storage_upload empty_store [37, 80] p ''application/pdf'') \<and> suffix ''.pdf'' p) \<and>
   upload_file empty_store example_clock [1] ''u1'' ''image/png'' =
     (Inl (ValueError (MimeNotSupported ''image/png'')), empty_store)"
  using upload_file_suffix_or_error [of "''audio/ogg''" empty_store example_clock "[79, 103]" "''u1''"]
        upload_file_suffix_or_error [of "''application/pdf''" empty_store example_clock "[37, 80]" "''u1''"]
        upload_file_suffix_or_error [of "''image/png''" empty_store example_clock "[1]" "''u1''"]
  by simp

section \<open>Insertion and the duplicate check\<close>

lemma logged_logged: "logged (logged s a) b = logged s (a @ b)"
  by (simp add: logged_def)

lemma logged_nil: "logged s [] = s"
  by (simp add: logged_def)

lemma matching_logged: "matching (logged s cs) t k v = matching s t k v"
  by (simp add: matching_def logged_def)

lemma dup_loop_result:
  "dup_loop t d ks acc s =
     (acc @ filter (\<lambda>k. case map_of d k of None \<Rightarrow> False | Some v \<Rightarrow> matching s t k v \<noteq> []) ks,
      logged s (concat (map (\<lambda>k. case map_of d k of None \<Rightarrow> [] | Some v \<Rightarrow> [Select t k v]) ks)))"
proof (induction ks arbitrary: acc s)
  case Nil
  then show ?case by (simp add: logged_nil)
next
  case (Cons k ks)
  show ?case
  proof (cases "map_of d k")
    case None
    then show ?thesis by (simp add: Cons.IH)
  next
    case (Some v)
    have sel: "table_select_eq s t k v = (matching s t k v, logged s [Select t k v])"
      by (simp add: table_select_eq_def matching_def logged_def)
    show ?thesis
      by (simp add: Some sel Cons.IH matching_logged logged_logged cong: option.case_cong)
  qed
qed

lemma check_duplicates_result:
  "check_duplicates s t data =
     (if has_duplicate s t data then Inl DuplicateEntryError else Inr None,
      logged s (duplicate_checks t data))"
  by (simp add: check_duplicates_def dup_loop_result has_duplicate_def duplicate_checks_def
      list_ex_iff filter_empty_conv)

lemma construct_attrs:
  "map_of (map (\<lambda>(k, d). (k, g k)) xs) k = (if k \<in> fst ` set xs then Some (g k) else None)"
  by (induction xs) auto

lemma construct_getattr:
  assumes "construct cls r = Inr rec" and "map_of r k = Some v"
  shows "getattr rec k = Inr v"
proof -
  from assms(2) have "k \<in> fst ` set r" by (metis map_of_eq_None_iff option.distinct(1))
  moreover from assms(1) have all: "\<forall>k \<in> set (map fst r). k \<in> set (map fst (attrs cls))"
    and rec: "rec = cls\<lparr>attrs := map (\<lambda>(k, d). (k, case map_of r k of None \<Rightarrow> VNull | Some v \<Rightarrow> v)) (attrs cls)\<rparr>"
    by (auto simp: construct_def list_ex_iff split: if_splits)
  ultimately have "k \<in> fst ` set (attrs cls)" by auto
  then show ?thesis using assms(2) by (simp add: rec getattr_def construct_attrs)
qed

lemma construct_not_duplicate: "construct cls r \<noteq> Inl DuplicateEntryError"
  by (simp add: construct_def)

lemma to_dict_nonnull: "map_of (to_dict u) k = Some v \<Longrightarrow> v \<noteq> VNull"
  by (auto simp: to_dict_def dest!: map_of_SomeD)

lemma materialise_pkey:
  "map_of (materialise s t r) (pkey s t) = Some (assigned_id s t r)"
proof (cases "pkey s t \<in> set (map fst r)")
  case True
  then obtain v where "map_of r (pkey s t) = Some v"
    by (metis map_of_eq_None_iff not_Some_eq set_map)
  then show ?thesis using True by (simp add: materialise_def assigned_id_def)
next
  case False
  then have "map_of r (pkey s t) = None" by (simp add: map_of_eq_None_iff)
  then show ?thesis using False by (simp add: materialise_def assigned_id_def map_add_def)
qed

lemma assigned_id_nonnull: "assigned_id s t (to_dict u) \<noteq> VNull"
  by (auto simp: assigned_id_def split: option.splits dest: to_dict_nonnull)

lemma materialise_logged: "materialise (logged s cs) t r = materialise s t r"
  by (simp add: materialise_def logged_def)

lemma materialise_nonnull:
  "filter (\<lambda>(k, v). v \<noteq> VNull) (materialise s t (to_dict u)) = materialise s t (to_dict u)"
  by (simp add: materialise_def to_dict_def)

lemma table_insert_result: "table_insert s t r = ([materialise s t r], inserted s t r)"
  by (simp add: table_insert_def inserted_def)

lemma add_user_result:
  "add_user s u =
     (if has_duplicate s ''users'' u then (Inl DuplicateEntryError, logged s (duplicate_checks ''users'' u))
      else (construct u (materialise s ''users'' (to_dict u)),
            inserted (logged s (duplicate_checks ''users'' u)) ''users'' (to_dict u)))"
  by (simp add: add_user_def check_duplicates_result table_insert_result materialise_logged)

lemma add_message_result:
  "add_message s u =
     (if has_duplicate s ''messages'' u then (Inl DuplicateEntryError, logged s (duplicate_checks ''messages'' u))
      else (construct u (materialise s ''messages'' (to_dict u)),
            inserted (logged s (duplicate_checks ''messages'' u)) ''messages'' (to_dict u)))"
  by (simp add: add_message_def check_duplicates_result table_insert_result materialise_logged
      materialise_nonnull)

lemma add_file_result:
  "add_file s u =
     (if has_duplicate s ''files'' u then (Inl DuplicateEntryError, logged s (duplicate_checks ''files'' u))
      else (construct u (materialise s ''files'' (to_dict u)),
            inserted (logged s (duplicate_checks ''files'' u)) ''files'' (to_dict u)))"
  by (simp add: add_file_def check_duplicates_result table_insert_result materialise_logged)

lemma add_order_result:
  "add_order s ord =
     (case require_fields ord [''user_id'', ''draft_id'', ''address_id'', ''blob_path''] of
        Inl e \<Rightarrow> (Inl e, s)
      | Inr _ \<Rightarrow>
          if has_duplicate s ''orders'' ord
          then (Inl DuplicateEntryError, logged s (duplicate_checks ''orders'' ord))
          else (Inr (0, ''Order added successfully''),
                inserted (logged s (duplicate_checks ''orders'' ord)) ''orders'' (to_dict ord)))"
  by (simp add: add_order_def check_duplicates_result table_insert_result split: sum.splits)

lemma add_draft_result:
  "add_draft s d = (construct d (materialise s ''drafts'' (to_dict d)), inserted s ''drafts'' (to_dict d))"
  by (simp add: add_draft_def table_insert_result)

lemma add_attachment_result:
  "add_attachment s d =
     (construct d (materialise s ''attachments'' (to_dict d)), inserted s ''attachments'' (to_dict d))"
  by (simp add: add_attachment_def table_insert_result)

lemma inserted_calls: "calls (inserted s t r) = calls s @ [Insert t r]"
  by (simp add: inserted_def table_insert_def)

lemma inserted_tables:
  "tables (inserted s t r) = (tables s)(t := tables s t @ [materialise s t r])"
  by (simp add: inserted_def table_insert_def)

lemma logged_calls: "calls (logged s cs) = calls s @ cs"
  by (simp add: logged_def)

lemma logged_tables: "tables (logged s cs) = tables s"
  by (simp add: logged_def)

lemma created_id:
  assumes "construct u (materialise s t (to_dict u)) = Inr rec"
  shows "getattr rec (pkey s t) = Inr (assigned_id s t (to_dict u))"
  using construct_getattr [OF assms materialise_pkey] .

lemma duplicate_checks_selects:
  "c \<in> set (duplicate_checks t u) \<Longrightarrow> \<exists>k v. c = Select t k v"
  by (auto simp: duplicate_checks_def split: option.splits)

lemma checked_add_user: "checked_add add_user ''users'' s u"
  by (auto simp: checked_add_def add_user_result construct_not_duplicate created_id
      assigned_id_nonnull)

lemma checked_add_message: "checked_add add_message ''messages'' s u"
  by (auto simp: checked_add_def add_message_result construct_not_duplicate created_id
      assigned_id_nonnull)

lemma checked_add_file: "checked_add add_file ''files'' s u"
  by (auto simp: checked_add_def add_file_result construct_not_duplicate created_id
      assigned_id_nonnull)

text \<open>
  C10. \<open>_check_duplicates\<close> either raises \<open>DuplicateEntryError\<close> or returns
  \<open>None\<close>, so what the callers bind to \<open>duplicates\<close> is never truthy and their
  \<open>if duplicates:\<close> branches are never taken; \<open>add_order\<close> never returns the
  pair with status 1, and an order with a duplicate surfaces as the raised
  \<open>DuplicateEntryError\<close>.
\<close>

theorem check_duplicates_never_truthy:
  "(fst (check_duplicates s table data) = Inl DuplicateEntryError \<or>
    fst (check_duplicates s table data) = Inr None) \<and>
   (\<forall>d. fst (check_duplicates s table data) = Inr d \<longrightarrow> \<not> truthy d) \<and>
   fst (add_order s ord) \<noteq> Inr (1, msg) \<and>
   (require_fields ord [''user_id'', ''draft_id'', ''address_id'', ''blob_path''] = Inr () \<and>
    has_duplicate s ''orders'' ord \<longrightarrow> fst (add_order s ord) = Inl DuplicateEntryError)"
  by (auto simp: check_duplicates_result add_order_result split: sum.splits)

theorem check_duplicates_never_truthy_witness:
  "fst (check_duplicates store_order ''orders'' new_order) = Inl DuplicateEntryError \<and>
   fst (check_duplicates empty_store ''orders'' new_order) = Inr None \<and>
   fst (add_order store_order new_order) = Inl DuplicateEntryError"
  using check_duplicates_never_truthy [of store_order "''orders''" new_order new_order "''x''"]
        check_duplicates_never_truthy [of empty_store "''orders''" new_order new_order "''x''"]
  by (simp add: check_duplicates_result has_duplicate_def to_dict_def matching_def matches_def
      getattr_def empty_store_def store_order_def new_order_def example_pkey_def order_row_def
          order_fields_def)

text \<open>
  C2, as the specification states it, covers every add operation. \<open>add_draft\<close>
  performs no duplicate check: a draft whose populated unique field matches a
  stored row is inserted without a \<open>DuplicateEntryError\<close>. \<open>add_order\<close> returns
  a status pair, not a record with an identifier.
\<close>

theorem add_draft_unchecked_counterexample:
  "has_duplicate store_draft ''drafts'' dup_draft \<and>
   fst (add_draft store_draft dup_draft) \<noteq> Inl DuplicateEntryError \<and>
   calls (snd (add_draft store_draft dup_draft)) = [Insert ''drafts'' (to_dict dup_draft)] \<and>
   fst (add_order empty_store new_order) = Inr (0, ''Order added successfully'')"
  by (simp add: add_draft_result construct_not_duplicate inserted_calls add_order_result
      has_duplicate_def to_dict_def matching_def matches_def getattr_def empty_store_def
          new_order_def store_draft_def dup_draft_def example_pkey_def order_fields_def
          draft_row_def)

text \<open>
  C2, amended. \<open>add_user\<close>, \<open>add_message\<close> and \<open>add_file\<close> fail with
  \<open>DuplicateEntryError\<close> if and only if at least one populated unique field of
  the input has a matching row in the table; when they fail no insert is
  performed (the store received only the selects of the check), and when they
  return a record it carries the non-null identifier of the stored row.
  \<open>add_order\<close>, given its four required fields, fails with
  \<open>DuplicateEntryError\<close> under the same condition without an insert, and
  otherwise inserts and returns the pair (0, "Order added successfully").
  \<open>add_draft\<close> and \<open>add_attachment\<close> issue the insert without a duplicate
  check; they and \<open>add_address\<close> never raise \<open>DuplicateEntryError\<close>.
\<close>

theorem add_duplicate_contract:
  "checked_add add_user ''users'' s u \<and>
   checked_add add_message ''messages'' s u \<and>
   checked_add add_file ''files'' s u \<and>
   Insert t' r' \<notin> set (duplicate_checks t u) \<and>
   (require_fields u [''user_id'', ''draft_id'', ''address_id'', ''blob_path''] = Inr () \<longrightarrow>
      (fst (add_order s u) = Inl DuplicateEntryError \<longleftrightarrow> has_duplicate s ''orders'' u) \<and>
      (has_duplicate s ''orders'' u \<longrightarrow> snd (add_order s u) = logged s (duplicate_checks ''orders'' u)) \<and>
      (\<not> has_duplicate s ''orders'' u \<longrightarrow>
         add_order s u =
           (Inr (0, ''Order added successfully''),
            inserted (logged s (duplicate_checks ''orders'' u)) ''orders'' (to_dict u)))) \<and>
   snd (add_draft s u) = inserted s ''drafts'' (to_dict u) \<and>
   fst (add_draft s u) \<noteq> Inl DuplicateEntryError \<and>
   snd (add_attachment s u) = inserted s ''attachments'' (to_dict u) \<and>
   fst (add_attachment s u) \<noteq> Inl DuplicateEntryError \<and>
   fst (add_address s u) \<noteq> Inl DuplicateEntryError"
proof -
  have sel: "Insert t' r' \<notin> set (duplicate_checks t u)"
    using duplicate_checks_selects [of "Insert t' r'" t u] by auto
  have ord: "require_fields u [''user_id'', ''draft_id'', ''address_id'', ''blob_path''] = Inr () \<longrightarrow>
      (fst (add_order s u) = Inl DuplicateEntryError \<longleftrightarrow> has_duplicate s ''orders'' u) \<and>
      (has_duplicate s ''orders'' u \<longrightarrow> snd (add_order s u) = logged s (duplicate_checks ''orders'' u)) \<and>
      (\<not> has_duplicate s ''orders'' u \<longrightarrow>
         add_order s u =
           (Inr (0, ''Order added successfully''),
            inserted (logged s (duplicate_checks ''orders'' u)) ''orders'' (to_dict u)))"
    by (simp add: add_order_result)
  have addr: "fst (add_address s u) \<noteq> Inl DuplicateEntryError"
    by (auto simp: add_address_def table_insert_result construct_not_duplicate getattr_def
        split: sum.splits option.splits)
  show ?thesis
    using sel ord addr checked_add_user [of s u] checked_add_message [of s u]
      checked_add_file [of s u]
    by (simp add: add_draft_result add_attachment_result construct_not_duplicate)
qed

theorem add_duplicate_contract_witness:
  "fst (add_user store_ann user_by_email) = Inl DuplicateEntryError \<and>
   snd (add_user store_ann user_by_email) =
     logged store_ann [Select ''users'' ''email'' (VStr ''a@example.com'')] \<and>
   (\<exists>rec. fst (add_user store_ann new_user) = Inr rec \<and> getattr rec ''user_id'' = Inr (VInt 8)) \<and>
   calls (snd (add_user store_ann new_user)) =
     [Select ''users'' ''email'' (VStr ''b@example.com''),
      Insert ''users'' [(''email'', VStr ''b@example.com''), (''first_name'', VStr ''Bob'')]]"
  using add_duplicate_contract [of store_ann user_by_email "''users''" "[]" "''users''"]
        add_duplicate_contract [of store_ann new_user "''users''" "[]" "''users''"]
  by (simp add: checked_add_def add_user_result has_duplicate_def duplicate_checks_def
      to_dict_def matching_def matches_def assigned_id_def construct_def materialise_def
      inserted_calls logged_calls getattr_def store_ann_def user_by_email_def new_user_def
          empty_store_def ann_row_def user_fields_def example_pkey_def)

section \<open>Deletion\<close>

lemma table_delete_eq_result:
  "table_delete_eq s t k v = (matching s t k v, deleted s t k v)"
  by (simp add: table_delete_eq_def matching_def deleted_def)

lemma delete_entry_result:
  assumes "deletion_target obj deletion_key = Some (k, v)"
  shows "delete_entry s obj deletion_key =
           (if matching s (obj_to_table (etype obj)) k v = []
            then Inl (NoEntryFoundError (obj_to_table (etype obj)) k v)
            else Inr (length (matching s (obj_to_table (etype obj)) k v)),
            deleted s (obj_to_table (etype obj)) k v)"
  using assms
  by (auto simp: delete_entry_def deletion_target_def getattr_def table_delete_eq_result Let_def
      split: option.splits list.splits if_splits)

lemma delete_user_missing:
  assumes "declares_unique_fields u"
      and "first_populated (attrs u) (unique_fields u) = Some (f, v)"
      and "matching s ''users'' f v = []"
  shows "delete_user s u = (Inl (NoEntryFoundError ''users'' f v), logged s [Select ''users'' f v])"
  by (simp add: delete_user_def get_user_def get_obj_info_none [OF assms])

lemma delete_user_found:
  assumes "declares_unique_fields u"
      and "first_populated (attrs u) (unique_fields u) = Some (f, v)"
      and "matching s ''users'' f v = [r]"
      and "construct u r = Inr full"
      and "getattr full ''user_id'' = Inr uid"
  shows "delete_user s u =
           (Inr (0, ''User deleted successfully''),
            deleted (logged s [Select ''users'' f v]) ''users'' ''user_id'' uid)"
  by (simp add: delete_user_def get_user_def get_obj_info_one [OF assms(1,2,3)] assms(4,5)
      table_delete_eq_result)

lemma delete_address_found:
  assumes "getattr a ''address_id'' = Inr aid" and "aid \<noteq> VNull"
  shows "delete_address s a =
           (Inr (0, ''Address deleted successfully''), deleted s ''addresses'' ''address_id'' aid)"
  by (simp add: delete_address_def assms table_delete_eq_result)

text \<open>
  C4, as the specification states it, has every delete operation return an
  affected-row count of at least 1 when the target exists. \<open>delete_user\<close> on a
  stored user deletes the one matching row and returns the status pair
  (0, "User deleted successfully").
\<close>

theorem delete_user_status_counterexample:
  "length (matching store_ann ''users'' ''email'' (VStr ''a@example.com'')) = 1 \<and>
   fst (delete_user store_ann user_by_email) = Inr (0, ''User deleted successfully'') \<and>
   tables (snd (delete_user store_ann user_by_email)) ''users'' = []"
  by (simp add: delete_user_def get_user_def get_obj_info_def getattr_def construct_def
      table_select_eq_def table_delete_eq_def validate_exactly_one_supabase_item_def
      matching_def matches_def store_ann_def user_by_email_def empty_store_def ann_row_def
          user_fields_def example_pkey_def)

text \<open>
  C4, amended. \<open>_delete_entry\<close> fails with \<open>NoEntryFoundError\<close> when its delete
  affects no row and otherwise returns the number of deleted rows, which is at
  least 1. \<open>delete_user\<close> fails with \<open>NoEntryFoundError\<close> when the lookup on
  the first populated unique field matches no row, and when exactly one row
  matches it deletes by that row's \<open>user_id\<close> and returns the pair
  (0, "User deleted successfully"). \<open>delete_address\<close>, given an \<open>address_id\<close>
  that matches a stored row, deletes by it and returns the pair
  (0, "Address deleted successfully").
\<close>

theorem delete_contract:
  "(deletion_target obj deletion_key = Some (k, v) \<longrightarrow>
      (matching s (obj_to_table (etype obj)) k v = [] \<longrightarrow>
         fst (delete_entry s obj deletion_key) = Inl (NoEntryFoundError (obj_to_table (etype obj)) k v)) \<and>
      (matching s (obj_to_table (etype obj)) k v \<noteq> [] \<longrightarrow>
         fst (delete_entry s obj deletion_key) = Inr (length (matching s (obj_to_table (etype obj)) k v)) \<and>
         1 \<le> length (matching s (obj_to_table (etype obj)) k v)) \<and>
      snd (delete_entry s obj deletion_key) = deleted s (obj_to_table (etype obj)) k v) \<and>
   (declares_unique_fields obj \<and> first_populated (attrs obj) (unique_fields obj) = Some (k, v) \<longrightarrow>
      (matching s ''users'' k v = [] \<longrightarrow>
         delete_user s obj = (Inl (NoEntryFoundError ''users'' k v), logged s [Select ''users'' k v])) \<and>
      (matching s ''users'' k v = [r] \<and> construct obj r = Inr full \<and>
       getattr full ''user_id'' = Inr uid \<longrightarrow>
         delete_user s obj =
           (Inr (0, ''User deleted successfully''),
            deleted (logged s [Select ''users'' k v]) ''users'' ''user_id'' uid))) \<and>
   (getattr obj ''address_id'' = Inr aid \<and> aid \<noteq> VNull \<and>
    matching s ''addresses'' ''address_id'' aid \<noteq> [] \<longrightarrow>
      delete_address s obj =
        (Inr (0, ''Address deleted successfully''), deleted s ''addresses'' ''address_id'' aid))"
proof (intro conjI impI)
  assume "deletion_target obj deletion_key = Some (k, v)"
  note d = delete_entry_result [OF this, of s]
  show "snd (delete_entry s obj deletion_key) = deleted s (obj_to_table (etype obj)) k v"
    by (simp add: d)
  { assume "matching s (obj_to_table (etype obj)) k v = []"
    then show "fst (delete_entry s obj deletion_key) = Inl (NoEntryFoundError (obj_to_table (etype obj)) k v)"
      by (simp add: d) }
  { assume n: "matching s (obj_to_table (etype obj)) k v \<noteq> []"
    then show "fst (delete_entry s obj deletion_key) = Inr (length (matching s (obj_to_table (etype obj)) k v))"
      by (simp add: d)
    from n show "1 \<le> length (matching s (obj_to_table (etype obj)) k v)"
      by (cases "matching s (obj_to_table (etype obj)) k v") auto }
next
  assume a: "declares_unique_fields obj \<and> first_populated (attrs obj) (unique_fields obj) = Some (k, v)"
  { assume "matching s ''users'' k v = []"
    with a show "delete_user s obj = (Inl (NoEntryFoundError ''users'' k v), logged s [Select ''users'' k v])"
      by (simp add: delete_user_missing) }
  { assume "matching s ''users'' k v = [r] \<and> construct obj r = Inr full \<and> getattr full ''user_id'' = Inr uid"
    with a show "delete_user s obj =
           (Inr (0, ''User deleted successfully''),
            deleted (logged s [Select ''users'' k v]) ''users'' ''user_id'' uid)"
      by (simp add: delete_user_found) }
next
  assume "getattr obj ''address_id'' = Inr aid \<and> aid \<noteq> VNull \<and>
    matching s ''addresses'' ''address_id'' aid \<noteq> []"
  then show "delete_address s obj =
        (Inr (0, ''Address deleted successfully''), deleted s ''addresses'' ''address_id'' aid)"
    by (simp add: delete_address_found)
qed

theorem delete_contract_witness:
  "fst (delete_entry store_ann user_by_email (Some ''email'')) = Inr 1 \<and>
   fst (delete_entry empty_store user_by_email (Some ''email'')) =
     Inl (NoEntryFoundError ''users'' ''email'' (VStr ''a@example.com'')) \<and>
   delete_user empty_store user_by_email =
     (Inl (NoEntryFoundError ''users'' ''email'' (VStr ''a@example.com'')),
      logged empty_store [Select ''users'' ''email'' (VStr ''a@example.com'')]) \<and>
   delete_user store_ann user_by_email =
     (Inr (0, ''User deleted successfully''),
      deleted (logged store_ann [Select ''users'' ''email'' (VStr ''a@example.com'')])
        ''users'' ''user_id'' (VInt 7)) \<and>
   delete_address store_address address_by_id =
     (Inr (0, ''Address deleted successfully''),
      deleted store_address ''addresses'' ''address_id'' (VInt 2))"
  using delete_contract [of user_by_email "Some ''email''" "''email''" "VStr ''a@example.com''" store_ann
          ann_row ann_full "VInt 7" "VNull"]
        delete_contract [of user_by_email "Some ''email''" "''email''" "VStr ''a@example.com''" empty_store
          ann_row ann_full "VInt 7" "VNull"]
        delete_contract [of address_by_id "Some ''address_id''" "''address_id''" "VInt 2" store_address
          address_row address_by_id "VInt 2" "VInt 2"]
  by (simp add: deletion_target_def declares_unique_fields_def matching_def matches_def
      construct_def getattr_def empty_store_def ann_row_def store_ann_def user_by_email_def
          ann_full_def address_row_def store_address_def address_by_id_def example_pkey_def
          user_fields_def address_fields_def)

section \<open>Update and the changelog\<close>

lemma get_obj_info_effect:
  "snd (get_obj_info s t obj) = s \<or> (\<exists>k v. snd (get_obj_info s t obj) = logged s [Select t k v])"
  by (auto simp: get_obj_info_def table_select_eq_def logged_def
      split: sum.splits list.splits prod.splits)

lemma get_user_effect:
  assumes "get_user s d = (r, s1)"
  shows "s1 = s \<or> (\<exists>k v. s1 = logged s [Select ''users'' k v])"
  using get_obj_info_effect [of s "''users''" d] get_user_state [of s d] assms by simp

lemma get_user_constructed:
  assumes "get_user s d = (Inr full, s1)"
  shows "\<exists>r. construct d r = Inr full"
  using assms by (auto simp: get_user_def split: prod.splits sum.splits)

lemma constructed_attrs:
  assumes "construct cls r = Inr full" and "(k, v) \<in> set (attrs full)"
  shows "map_of (attrs full) k = Some v"
proof -
  from assms(1) have rec: "attrs full = map (\<lambda>(k, d). (k, case map_of r k of None \<Rightarrow> VNull | Some v \<Rightarrow> v)) (attrs cls)"
    by (auto simp: construct_def split: if_splits)
  from assms(2) have "k \<in> fst ` set (attrs cls)" and "v = (case map_of r k of None \<Rightarrow> VNull | Some v \<Rightarrow> v)"
    unfolding rec by force+
  then show ?thesis unfolding rec by (simp add: construct_attrs)
qed

lemma no_difference:
  assumes "construct cls r = Inr full" and "map_of (attrs upd) = map_of (attrs full)"
  shows "find_different_fields full upd = []"
  using constructed_attrs [OF assms(1)]
  by (auto simp: find_different_fields_def filter_empty_conv assms(2))

lemma different_declared:
  assumes "c \<in> set (find_different_fields full upd)"
  shows "getattr full c = Inr (value_of full c) \<and> getattr upd c = Inr (value_of upd c)"
proof -
  from assms obtain v w where "(c, v) \<in> set (attrs full)" "map_of (attrs upd) c = Some w"
    by (auto simp: find_different_fields_def split: option.splits)
  moreover then obtain v' where "map_of (attrs full) c = Some v'"
    by (metis map_of_eq_None_iff not_Some_eq fst_conv image_eqI)
  ultimately show ?thesis by (simp add: getattr_def value_of_def)
qed

lemma materialise_other:
  "k \<noteq> pkey s t \<Longrightarrow> map_of (materialise s t r) k = map_of r k"
  by (auto simp: materialise_def map_add_def split: option.splits)

lemma payload_records:
  "records_change (to_dict (changelog_entry ts tn rid c old new)) ts tn rid c old new"
  by (simp add: records_change_def col_def to_dict_def changelog_entry_def)

lemma stored_records:
  assumes "pkey s ''changelog'' \<notin> set changelog_columns"
  shows "records_change
           (materialise s ''changelog'' (to_dict (changelog_entry ts tn rid c old new)))
           ts tn rid c old new"
proof -
  have "\<And>k. k \<in> set changelog_columns \<Longrightarrow>
          col (materialise s ''changelog'' (to_dict (changelog_entry ts tn rid c old new))) k =
          col (to_dict (changelog_entry ts tn rid c old new)) k"
  proof -
    fix k assume "k \<in> set changelog_columns"
    with assms have "k \<noteq> pkey s ''changelog''" by auto
    then show "col (materialise s ''changelog'' (to_dict (changelog_entry ts tn rid c old new))) k =
          col (to_dict (changelog_entry ts tn rid c old new)) k"
      by (simp add: col_def materialise_other)
  qed
  then show ?thesis
    using payload_records [of ts tn rid c old new]
    by (simp add: records_change_def changelog_columns_def)
qed

lemma inserted_pkey: "pkey (inserted s t r) = pkey s"
  by (simp add: inserted_def table_insert_def)

lemma changelog_loop_result:
  assumes "getattr full ''user_id'' = Inr uid"
      and "\<forall>c \<in> set fs. getattr full c = Inr (value_of full c) \<and> getattr upd c = Inr (value_of upd c)"
      and "pkey s ''changelog'' \<notin> set changelog_columns"
  shows "\<exists>s' rows.
           changelog_loop ts full upd fs s = (Inr (), s') \<and>
           calls s' = calls s @ map (changelog_insert ts full upd uid) fs \<and>
           pkey s' = pkey s \<and>
           (\<forall>t. t \<noteq> ''changelog'' \<longrightarrow> tables s' t = tables s t) \<and>
           tables s' ''changelog'' = tables s ''changelog'' @ rows \<and>
           list_all2 (\<lambda>c r. records_change r ts ''users'' uid c (value_of full c) (value_of upd c)) fs rows"
  using assms(2,3)
proof (induction fs arbitrary: s)
  case Nil
  then show ?case by simp
next
  case (Cons c fs)
  let ?p = "to_dict (changelog_entry ts ''users'' uid c (value_of full c) (value_of upd c))"
  let ?s1 = "inserted s ''changelog'' ?p"
  have pk: "pkey ?s1 ''changelog'' \<notin> set changelog_columns"
    using Cons.prems(2) by (simp add: inserted_pkey)
  from Cons.prems(1) have rest: "\<forall>c \<in> set fs. getattr full c = Inr (value_of full c) \<and> getattr upd c = Inr (value_of upd c)"
    by simp
  from Cons.IH [OF rest pk] obtain s' rows where
    l: "changelog_loop ts full upd fs ?s1 = (Inr (), s')"
    and c: "calls s' = calls ?s1 @ map (changelog_insert ts full upd uid) fs"
    and p: "pkey s' = pkey ?s1"
    and o: "\<forall>t. t \<noteq> ''changelog'' \<longrightarrow> tables s' t = tables ?s1 t"
    and r: "tables s' ''changelog'' = tables ?s1 ''changelog'' @ rows"
    and a: "list_all2 (\<lambda>c r. records_change r ts ''users'' uid c (value_of full c) (value_of upd c)) fs rows"
    by blast
  from Cons.prems(1) have g: "getattr full c = Inr (value_of full c)" "getattr upd c = Inr (value_of upd c)"
    by simp_all
  have step: "changelog_loop ts full upd (c # fs) s = (Inr (), s')"
    by (simp add: assms(1) g add_changelog_def table_insert_result l)
  have "calls s' = calls s @ map (changelog_insert ts full upd uid) (c # fs)"
    by (simp add: c inserted_calls changelog_insert_def)
  moreover have "pkey s' = pkey s" by (simp add: p inserted_pkey)
  moreover have "\<forall>t. t \<noteq> ''changelog'' \<longrightarrow> tables s' t = tables s t"
    using o by (simp add: inserted_tables)
  moreover have "tables s' ''changelog'' = tables s ''changelog'' @ (materialise s ''changelog'' ?p # rows)"
    by (simp add: r inserted_tables)
  moreover have "list_all2 (\<lambda>c r. records_change r ts ''users'' uid c (value_of full c) (value_of upd c))
                   (c # fs) (materialise s ''changelog'' ?p # rows)"
    using a stored_records [OF Cons.prems(2)] by simp
  ultimately show ?case using step by blast
qed

lemma update_user_unchanged:
  assumes "get_user s user_data = (Inr full, s1)"
      and "map_of (attrs user_update) = map_of (attrs full)"
  shows "update_user s clk user_data user_update = (Inr (1, ''No fields were updated''), s1)"
proof -
  from get_user_constructed [OF assms(1)] obtain r where "construct user_data r = Inr full" ..
  from no_difference [OF this assms(2)] show ?thesis
    by (simp add: update_user_def assms(1))
qed

lemma get_message_effect:
  assumes "get_message s d = (r, s1)"
  shows "s1 = s \<or> (\<exists>k v. s1 = logged s [Select ''messages'' k v])"
  using get_obj_info_effect [of s "''messages''" d] get_message_state [of s d] assms by simp

lemma updated_calls: "calls (updated s t u k v) = calls s @ [Update t u k v]"
  by (simp add: updated_def table_update_eq_def)

lemma updated_tables_other: "t' \<noteq> t \<Longrightarrow> tables (updated s t u k v) t' = tables s t'"
  by (simp add: updated_def table_update_eq_def)

lemma table_update_eq_state:
  "(case table_update_eq s t u k v of (r, s3) \<Rightarrow> f s3) = f (updated s t u k v)"
  by (simp add: updated_def split: prod.splits)

lemma update_message_result:
  assumes "get_message s d = (Inr full, s1)" and "getattr full ''message_id'' = Inr mid"
  shows "update_message s d upd =
           (Inr (0, ''Message updated successfully''),
            updated s1 ''messages'' (to_dict upd) ''message_id'' mid)"
  by (simp add: update_message_def assms table_update_eq_state)

text \<open>
  C5, as the specification states it, covers \<open>update_message\<close>. That function
  has no diff: with an update record equal, field for field, to the stored
  message it still issues the update and reports "Message updated
  successfully".
\<close>

theorem update_message_always_writes_counterexample:
  "fst (get_message store_msg msg_by_id) = Inr msg_same \<and>
   fst (update_message store_msg msg_by_id msg_same) = Inr (0, ''Message updated successfully'') \<and>
   calls (snd (update_message store_msg msg_by_id msg_same)) =
     [Select ''messages'' ''message_id'' (VInt 4),
      Update ''messages'' (to_dict msg_same) ''message_id'' (VInt 4)]"
  by (simp add: update_message_def get_message_def get_obj_info_def getattr_def construct_def
      table_select_eq_def table_update_eq_def validate_exactly_one_supabase_item_def
      matches_def store_msg_def msg_by_id_def msg_same_def empty_store_def msg_row_def
          example_pkey_def)

text \<open>
  C5, amended. If the update record given to \<open>update_user\<close> is field-for-field
  equal to the stored record, \<open>update_user\<close> issues no update and no changelog
  insertion (the store received at most the select of the lookup and its
  tables are unchanged) and returns (1, "No fields were updated"), which is
  not the result (0, "User updated successfully") of a write.
  \<open>update_message\<close> always issues its update.
\<close>

theorem update_user_unchanged_noop:
  assumes "get_user s user_data = (Inr full, s1)"
      and "map_of (attrs user_update) = map_of (attrs full)"
  shows "update_user s clk user_data user_update = (Inr (1, ''No fields were updated''), s1) \<and>
         (s1 = s \<or> (\<exists>k v. s1 = logged s [Select ''users'' k v])) \<and>
         tables s1 = tables s \<and>
         (1, ''No fields were updated'') \<noteq> (0 :: int, ''User updated successfully'') \<and>
         (get_message sm msg_data = (Inr msg_full, s2) \<and> getattr msg_full ''message_id'' = Inr mid \<longrightarrow>
            update_message sm msg_data msg_update =
              (Inr (0, ''Message updated successfully''),
               updated s2 ''messages'' (to_dict msg_update) ''message_id'' mid))"
  using update_user_unchanged [OF assms] get_user_effect [OF assms(1)]
  by (auto simp: logged_tables update_message_result)

theorem update_user_unchanged_noop_witness:
  "update_user store_ann example_clock user_by_email ann_full =
     (Inr (1, ''No fields were updated''),
      logged store_ann [Select ''users'' ''email'' (VStr ''a@example.com'')])"
  using update_user_unchanged_noop [where s = store_ann and user_data = user_by_email
          and full = ann_full and user_update = ann_full and clk = example_clock
          and ?s1.0 = "logged store_ann [Select ''users'' ''email'' (VStr ''a@example.com'')]"
          and sm = store_msg and msg_data = msg_by_id and msg_full = msg_same
          and ?s2.0 = "logged store_msg [Select ''messages'' ''message_id'' (VInt 4)]"
          and mid = "VInt 4" and msg_update = msg_same]
  by (simp add: get_user_def get_obj_info_def getattr_def construct_def
      table_select_eq_def validate_exactly_one_supabase_item_def logged_def
      matches_def example_clock_def store_ann_def user_by_email_def store_msg_def msg_by_id_def
          msg_same_def ann_full_def empty_store_def ann_row_def user_fields_def msg_row_def
          example_pkey_def)



text \<open>
  C1, as the specification states it, covers \<open>update_message\<close>. That function
  writes no changelog: with an update record that differs from the stored
  message in one field, the store receives the lookup and the update, and the
  changelog table stays empty.
\<close>

theorem update_message_no_changelog_counterexample:
  "fst (get_message store_msg msg_by_id) = Inr msg_same \<and>
   find_different_fields msg_same msg_edit = [''message_body''] \<and>
   calls (snd (update_message store_msg msg_by_id msg_edit)) =
     [Select ''messages'' ''message_id'' (VInt 4),
      Update ''messages'' (to_dict msg_edit) ''message_id'' (VInt 4)] \<and>
   tables (snd (update_message store_msg msg_by_id msg_edit)) ''changelog'' = []"
  by (simp add: update_message_def get_message_def get_obj_info_def getattr_def construct_def
      table_select_eq_def table_update_eq_def validate_exactly_one_supabase_item_def
      find_different_fields_def matches_def store_msg_def msg_by_id_def msg_same_def
          msg_edit_def empty_store_def msg_row_def example_pkey_def)

text \<open>
  C1, amended. When the update record given to \<open>update_user\<close> differs from the
  stored record in N fields (N at least 1), \<open>update_user\<close> appends exactly N
  rows to the changelog table, one per differing field and in their order,
  each recording the table name \<open>users\<close>, the row identifier, the column name,
  the previous value, the new value and the UTC timestamp read once before the
  loop; every changelog insertion is issued before the update call, which is
  the last call. The server's identifier column of the changelog table is
  assumed not to be one of the columns the client fills. \<open>update_message\<close>
  writes no changelog row.
\<close>

theorem update_user_changelog:
  assumes "get_user s user_data = (Inr full, s1)"
      and "getattr full ''user_id'' = Inr uid"
      and "pkey s ''changelog'' \<notin> set changelog_columns"
      and "find_different_fields full upd \<noteq> []"
  shows "fst (update_user s clk user_data upd) = Inr (0, ''User updated successfully'') \<and>
         calls (snd (update_user s clk user_data upd)) =
           calls s1 @
           map (changelog_insert (str_datetime (utcnow clk)) full upd uid) (find_different_fields full upd) @
           [Update ''users'' (to_dict upd) ''user_id'' uid] \<and>
         (\<exists>rows. tables (snd (update_user s clk user_data upd)) ''changelog'' =
                   tables s ''changelog'' @ rows \<and>
                 length rows = length (find_different_fields full upd) \<and>
                 list_all2 (\<lambda>c r. records_change r (str_datetime (utcnow clk)) ''users'' uid c
                                     (value_of full c) (value_of upd c))
                           (find_different_fields full upd) rows) \<and>
         (get_message sm msg_data = (Inr msg_full, s2) \<and> getattr msg_full ''message_id'' = Inr mid \<longrightarrow>
            calls (snd (update_message sm msg_data msg_update)) =
              calls s2 @ [Update ''messages'' (to_dict msg_update) ''message_id'' mid] \<and>
            tables (snd (update_message sm msg_data msg_update)) ''changelog'' = tables sm ''changelog'')"
proof -
  have msg: "get_message sm msg_data = (Inr msg_full, s2) \<and> getattr msg_full ''message_id'' = Inr mid \<longrightarrow>
            calls (snd (update_message sm msg_data msg_update)) =
              calls s2 @ [Update ''messages'' (to_dict msg_update) ''message_id'' mid] \<and>
            tables (snd (update_message sm msg_data msg_update)) ''changelog'' = tables sm ''changelog''"
  proof
    assume a: "get_message sm msg_data = (Inr msg_full, s2) \<and> getattr msg_full ''message_id'' = Inr mid"
    then have "tables s2 = tables sm"
      using get_message_effect [of sm msg_data "Inr msg_full" s2] by (auto simp: logged_tables)
    with a show "calls (snd (update_message sm msg_data msg_update)) =
              calls s2 @ [Update ''messages'' (to_dict msg_update) ''message_id'' mid] \<and>
            tables (snd (update_message sm msg_data msg_update)) ''changelog'' = tables sm ''changelog''"
      by (simp add: update_message_result updated_calls updated_tables_other)
  qed
  let ?fs = "find_different_fields full upd"
  let ?ts = "str_datetime (utcnow clk)"
  from get_user_effect [OF assms(1)] have same: "pkey s1 = pkey s" "tables s1 = tables s"
    by (auto simp: logged_def)
  have decl: "\<forall>c \<in> set ?fs. getattr full c = Inr (value_of full c) \<and> getattr upd c = Inr (value_of upd c)"
    using different_declared by blast
  have pk: "pkey s1 ''changelog'' \<notin> set changelog_columns"
    using assms(3) by (simp add: same)
  from changelog_loop_result [OF assms(2) decl pk, of ?ts] obtain s2 rows where
    l: "changelog_loop ?ts full upd ?fs s1 = (Inr (), s2)"
    and c: "calls s2 = calls s1 @ map (changelog_insert ?ts full upd uid) ?fs"
    and r: "tables s2 ''changelog'' = tables s1 ''changelog'' @ rows"
    and a: "list_all2 (\<lambda>c r. records_change r ?ts ''users'' uid c (value_of full c) (value_of upd c)) ?fs rows"
    by blast
  have u: "update_user s clk user_data upd =
             (Inr (0, ''User updated successfully''), updated s2 ''users'' (to_dict upd) ''user_id'' uid)"
    by (simp add: update_user_def assms(1,2,4) l Let_def table_update_eq_state)
  have "tables (updated s2 ''users'' (to_dict upd) ''user_id'' uid) ''changelog'' =
          tables s ''changelog'' @ rows"
    by (simp add: updated_tables_other r same)
  moreover have "length rows = length ?fs"
    using a by (simp add: list_all2_lengthD)
  ultimately show ?thesis
    using a msg by (auto simp: u updated_calls c)
qed


theorem update_user_changelog_witness:
  "fst (update_user store_ann example_clock user_by_email ann_update) =
     Inr (0, ''User updated successfully'') \<and>
   calls (snd (update_user store_ann example_clock user_by_email ann_update)) =
     [Select ''users'' ''email'' (VStr ''a@example.com''),
      Insert ''changelog''
        [(''timestamp'', VStr ''2024-03-09 12:05:07''), (''table_name'', VStr ''users''),
         (''row_id'', VInt 7), (''column_name'', VStr ''email''), (''column_type'', VStr ''str''),
         (''old_value'', VStr ''a@example.com''), (''new_value'', VStr ''ann@example.com'')],
      Insert ''changelog''
        [(''timestamp'', VStr ''2024-03-09 12:05:07''), (''table_name'', VStr ''users''),
         (''row_id'', VInt 7), (''column_name'', VStr ''first_name''), (''column_type'', VStr ''str''),
         (''old_value'', VStr ''Ann''), (''new_value'', VStr ''Anna'')],
      Update ''users''
        [(''user_id'', VInt 7), (''email'', VStr ''ann@example.com''), (''first_name'', VStr ''Anna'')]
        ''user_id'' (VInt 7)] \<and>
   (\<exists>rows. tables (snd (update_user store_ann example_clock user_by_email ann_update)) ''changelog'' =
             tables store_ann ''changelog'' @ rows \<and> length rows = 2)"
proof -
  have g: "get_user store_ann user_by_email =
             (Inr ann_full, logged store_ann [Select ''users'' ''email'' (VStr ''a@example.com'')])"
    by (simp add: get_user_def get_obj_info_def getattr_def construct_def
        table_select_eq_def validate_exactly_one_supabase_item_def logged_def
        matches_def example_clock_def store_ann_def user_by_email_def store_msg_def
            msg_by_id_def msg_same_def msg_edit_def ann_full_def ann_update_def empty_store_def
            ann_row_def user_fields_def msg_row_def example_pkey_def)
  have i: "getattr ann_full ''user_id'' = Inr (VInt 7)"
    by (simp add: getattr_def example_clock_def store_ann_def user_by_email_def store_msg_def
        msg_by_id_def msg_same_def msg_edit_def ann_full_def ann_update_def empty_store_def
        ann_row_def user_fields_def msg_row_def example_pkey_def)
  have p: "pkey store_ann ''changelog'' \<notin> set changelog_columns"
    by (simp add: changelog_columns_def example_clock_def store_ann_def user_by_email_def
        store_msg_def msg_by_id_def msg_same_def msg_edit_def ann_full_def ann_update_def
        empty_store_def ann_row_def user_fields_def msg_row_def example_pkey_def)
  have d: "find_different_fields ann_full ann_update = [''email'', ''first_name'']"
    by (simp add: find_different_fields_def example_clock_def store_ann_def user_by_email_def
        store_msg_def msg_by_id_def msg_same_def msg_edit_def ann_full_def ann_update_def
        empty_store_def ann_row_def user_fields_def msg_row_def example_pkey_def)
  have n: "find_different_fields ann_full ann_update \<noteq> []"
    by (simp add: d)
  have ts: "str_datetime (utcnow example_clock) = ''2024-03-09 12:05:07''"
    by (simp add: str_datetime_def pad2_def pad4_def digit_def example_clock_def store_ann_def
        user_by_email_def store_msg_def msg_by_id_def msg_same_def msg_edit_def ann_full_def
        ann_update_def empty_store_def ann_row_def user_fields_def msg_row_def
        example_pkey_def)
  show ?thesis
    using update_user_changelog [OF g i p n, where clk = example_clock
            and sm = store_msg and msg_data = msg_by_id and msg_full = msg_same
            and ?s2.0 = "logged store_msg [Select ''messages'' ''message_id'' (VInt 4)]"
            and mid = "VInt 4" and msg_update = msg_edit, unfolded d ts]
    by (simp add: changelog_insert_def changelog_entry_def to_dict_def value_of_def
        logged_def example_clock_def store_ann_def user_by_email_def store_msg_def
            msg_by_id_def msg_same_def msg_edit_def ann_full_def ann_update_def empty_store_def
            ann_row_def user_fields_def msg_row_def example_pkey_def)
qed

end
